theory Spec2Isabelle
  imports Complex_Main
begin

section \<open>Wire protocol\<close>

text \<open>
  The members of the enum \<open>MessageType\<close> are the strings that travel in the \<open>type\<close>
  field of a frame. The server also sends the type \<open>auth_success\<close> and reads the
  type \<open>auth\<close>, which are not members of the enum.
\<close>

abbreviation DRIVER_LOCATION_UPDATE :: string where "DRIVER_LOCATION_UPDATE \<equiv> ''driver_location_update''"
abbreviation DRIVER_STATUS_UPDATE :: string where "DRIVER_STATUS_UPDATE \<equiv> ''driver_status_update''"
abbreviation RIDE_REQUEST :: string where "RIDE_REQUEST \<equiv> ''ride_request''"
abbreviation RIDE_REQUEST_SUCCESS :: string where "RIDE_REQUEST_SUCCESS \<equiv> ''ride_request_success''"
abbreviation NEW_RIDE_REQUEST :: string where "NEW_RIDE_REQUEST \<equiv> ''new_ride_request''"
abbreviation RIDE_ACCEPTED :: string where "RIDE_ACCEPTED \<equiv> ''ride_accepted''"
abbreviation RIDE_REJECTED :: string where "RIDE_REJECTED \<equiv> ''ride_rejected''"
abbreviation RIDE_CANCELED :: string where "RIDE_CANCELED \<equiv> ''ride_canceled''"
abbreviation RIDE_STARTED :: string where "RIDE_STARTED \<equiv> ''ride_started''"
abbreviation RIDE_COMPLETED :: string where "RIDE_COMPLETED \<equiv> ''ride_completed''"
abbreviation NEGOTIATION_SETTINGS_UPDATE :: string where "NEGOTIATION_SETTINGS_UPDATE \<equiv> ''negotiation_settings_update''"
abbreviation DYNAMIC_PRICING_UPDATE :: string where "DYNAMIC_PRICING_UPDATE \<equiv> ''dynamic_pricing_update''"
abbreviation FEATURE_TOGGLE_UPDATE :: string where "FEATURE_TOGGLE_UPDATE \<equiv> ''feature_toggle_update''"
abbreviation ERROR :: string where "ERROR \<equiv> ''error''"
abbreviation PING :: string where "PING \<equiv> ''ping''"
abbreviation PONG :: string where "PONG \<equiv> ''pong''"

text \<open>
  The fixed texts of the \<open>message\<close> field. The source writes them in Portuguese; each
  constructor stands for one literal of the source:
  \<^item> \<open>AuthTimeoutMsg\<close>: Timeout de autenticacao
  \<^item> \<open>InvalidAuthData\<close>: Dados de autenticacao invalidos
  \<^item> \<open>UserNotFound\<close>: Usuario nao encontrado
  \<^item> \<open>NotAuthenticated\<close>: Cliente nao autenticado
  \<^item> \<open>ProcessingError\<close>: Erro ao processar mensagem
  \<^item> \<open>InternalError\<close>: Erro interno do servidor
  \<^item> \<open>OnlyDriversLocation\<close>: Apenas motoristas podem atualizar localizacao
  \<^item> \<open>OnlyDriversStatus\<close>: Apenas motoristas podem atualizar status
  \<^item> \<open>OnlyPassengersAndDrivers\<close>: Apenas passageiros e motoristas podem solicitar corridas
  \<^item> \<open>RequestFailed\<close>: Erro ao criar solicitacao de corrida
  \<^item> \<open>OnlyDriversAccept\<close>: Apenas motoristas podem aceitar corridas
  \<^item> \<open>OnlyDriversStart\<close>: Apenas motoristas podem iniciar corridas
  \<^item> \<open>OnlyDriversComplete\<close>: Apenas motoristas podem completar corridas
  \<^item> \<open>RideNotFound\<close>: Corrida nao encontrada
  \<^item> \<open>RideNoLongerAvailable\<close>: Esta corrida nao esta mais disponivel
  \<^item> \<open>AlreadyInRide\<close>: Voce ja esta em uma corrida ativa
  \<^item> \<open>NotAssigned\<close>: Voce nao esta atribuido a esta corrida
  \<^item> \<open>CannotStart\<close>: Esta corrida nao pode ser iniciada
  \<^item> \<open>NotActive\<close>: Esta corrida nao esta ativa
  \<^item> \<open>CannotCancel\<close>: Voce nao pode cancelar esta corrida
  \<^item> \<open>RequestCreated\<close>: Solicitacao de corrida criada com sucesso
  \<^item> \<open>TestSent\<close>: Teste de notificacao enviado com sucesso
  \<^item> \<open>AcceptedByDriver\<close>: Sua corrida foi aceita por um motorista
  \<^item> \<open>AcceptedByOther\<close>: Esta corrida foi aceita por outro motorista
  \<^item> \<open>AcceptOk\<close>: Corrida aceita com sucesso
  \<^item> \<open>RideWasStarted\<close>: Sua corrida foi iniciada
  \<^item> \<open>StartOk\<close>: Corrida iniciada com sucesso
  \<^item> \<open>RideWasCompleted\<close>: Sua corrida foi completada
  \<^item> \<open>CompleteOk\<close>: Corrida completada com sucesso
  \<^item> \<open>CanceledByPassenger\<close>: Corrida cancelada pelo passageiro
  \<^item> \<open>CanceledByDriver\<close>: Corrida cancelada pelo motorista
  \<^item> \<open>CancelOk\<close>: Corrida cancelada com sucesso
\<close>

datatype msg =
    AuthTimeoutMsg | InvalidAuthData | UserNotFound | NotAuthenticated
  | ProcessingError | InternalError
  | OnlyDriversLocation | OnlyDriversStatus | OnlyPassengersAndDrivers | RequestFailed
  | OnlyDriversAccept | OnlyDriversStart | OnlyDriversComplete
  | RideNotFound | RideNoLongerAvailable | AlreadyInRide | NotAssigned
  | CannotStart | NotActive | CannotCancel
  | RequestCreated | TestSent
  | AcceptedByDriver | AcceptedByOther | AcceptOk
  | RideWasStarted | StartOk | RideWasCompleted | CompleteOk
  | CanceledByPassenger | CanceledByDriver | CancelOk

text \<open>
  The position fields of \<open>driver_location_update\<close> and the trip fields of
  \<open>ride_request\<close>. The server copies them from the inbound payload into the store
  and into outbound frames; it computes nothing from them. A field that the payload
  lacks is \<open>None\<close>.
\<close>

record geo =
  latitude :: "real option"
  longitude :: "real option"
  heading :: "real option"
  speed :: "real option"
  accuracy :: "real option"

record trip =
  originLatitude :: "real option"
  originLongitude :: "real option"
  originAddress :: "string option"
  destinationLatitude :: "real option"
  destinationLongitude :: "real option"
  destinationAddress :: "string option"
  estimatedDistance :: "real option"
  estimatedDuration :: "real option"
  estimatedPrice :: "real option"

text \<open>
  The payload of an inbound frame, with the fields that the handlers read, typed as the
  wire protocol types them. The source nests nothing: \<open>p_geo\<close> and \<open>p_trip\<close> group
  fields that lie flat in the JSON object.
\<close>

record in_payload =
  p_userId :: "int option"
  p_userType :: "string option"
  p_rideRequestId :: int
  p_reason :: "string option"
  p_status :: "string option"
  p_geo :: geo
  p_trip :: trip
  p_notes :: "string option"

text \<open>
  What arrives on a connection: text that \<open>JSON.parse\<close> rejects (or that parses to
  \<open>null\<close>, so that reading \<open>data.type\<close> throws), or a frame with a type and a payload;
  the payload is \<open>None\<close> when the frame has none or has \<open>null\<close>.
\<close>

datatype inbound = Malformed | Frame string "in_payload option"

text \<open>The payloads of the frames the server sends, one constructor per shape.\<close>

datatype payload =
    ErrorP msg
  | EmptyP
  | AuthSuccessP int string
  | NewRideRequestP int int string string trip int
  | TestRideRequestP int trip int string real real
  | RideRequestAckP int msg
  | AckP int msg
  | RideEventP int int msg
  | RideCompletedP int int "real option" msg
  | RideRejectedP int msg
  | RideCanceledP int string "string option" msg
  | DriverLocationP int geo int
  | ConfigP string

record frame =
  ftype :: string
  fpayload :: payload
  ftimestamp :: int

section \<open>Connections and the session registry\<close>

text \<open>
  A \<open>WebSocket\<close> object is identified by a number. Of the object the server reads
  \<open>readyState\<close> and calls \<open>send\<close> and \<open>close\<close>; \<open>sent\<close> lists the frames
  handed to \<open>send\<close>, oldest first.
\<close>

type_synonym conn = nat

datatype ready_state = CONNECTING | OPEN | CLOSING | CLOSED

record socket =
  readyState :: ready_state
  sent :: "frame list"

record ConnectedClient =
  ws :: conn
  userId :: int
  userType :: string
  lastActivity :: int

section \<open>The store\<close>

text \<open>
  Modelled from the spec: the module \<open>./storage\<close> (the Ride Store Gateway) is not among
  the sources. The spec gives its contract: \<open>createRideRequest\<close>, \<open>getRideById\<close>,
  \<open>updateRide(id, partialFields)\<close>, \<open>getDriverLocationByDriverId\<close>,
  \<open>createDriverLocation\<close>, \<open>updateDriverLocation(driverId, partialFields)\<close>,
  \<open>getAvailableDriversNearLocation\<close>, \<open>getUser\<close>, \<open>getPassenger\<close>; ride rows have an
  id assigned by the store, a passenger, a nullable driver, a status and timestamps;
  there is one location row per driver with a status and a nullable current ride.
  The rows below carry the fields that the handlers read and write, under the names the
  handlers use (\<open>ride.userId\<close> is the passenger of the ride). An update of a row that
  does not exist changes nothing. Every call returns: failures of the store are not
  modelled.
\<close>

record ride =
  ride_userId :: "int option"
  ride_driverId :: "int option"
  ride_status :: string
  ride_amount :: "real option"
  ride_trip :: trip
  requestTime :: int
  startTime :: "int option"
  endTime :: "int option"

record driver_location =
  dl_driverId :: int
  dl_geo :: geo
  dl_status :: string
  currentRideId :: "int option"

record passenger =
  fullName :: "string option"
  phoneNumber :: "string option"

record storage =
  users :: "int set"
  passengers :: "int \<rightharpoonup> passenger"
  rides :: "int \<rightharpoonup> ride"
  driverLocations :: "int \<rightharpoonup> driver_location"
  nextRideId :: int

definition getUser :: "storage \<Rightarrow> int \<Rightarrow> bool" where
  "getUser st uid = (uid \<in> users st)"

definition getPassenger :: "storage \<Rightarrow> int \<Rightarrow> passenger option" where
  "getPassenger st uid = passengers st uid"

definition getRideById :: "storage \<Rightarrow> int \<Rightarrow> ride option" where
  "getRideById st rid = rides st rid"

definition updateRide :: "int \<Rightarrow> (ride \<Rightarrow> ride) \<Rightarrow> storage \<Rightarrow> storage" where
  "updateRide rid f st =
     (case rides st rid of
        None \<Rightarrow> st
      | Some r \<Rightarrow> st\<lparr>rides := (rides st)(rid \<mapsto> f r)\<rparr>)"

definition createRideRequest :: "int \<Rightarrow> trip \<Rightarrow> int \<Rightarrow> storage \<Rightarrow> int \<times> storage" where
  "createRideRequest passengerId t now st =
     (nextRideId st,
      st\<lparr>rides := (rides st)(nextRideId st \<mapsto>
            \<lparr>ride_userId = Some passengerId, ride_driverId = None, ride_status = ''pending'',
             ride_amount = None, ride_trip = t, requestTime = now, startTime = None,
             endTime = None\<rparr>),
         nextRideId := nextRideId st + 1\<rparr>)"

definition getDriverLocationByDriverId :: "storage \<Rightarrow> int \<Rightarrow> driver_location option" where
  "getDriverLocationByDriverId st d = driverLocations st d"

definition updateDriverLocation ::
  "int \<Rightarrow> (driver_location \<Rightarrow> driver_location) \<Rightarrow> storage \<Rightarrow> storage" where
  "updateDriverLocation d f st =
     (case driverLocations st d of
        None \<Rightarrow> st
      | Some l \<Rightarrow> st\<lparr>driverLocations := (driverLocations st)(d \<mapsto> f l)\<rparr>)"

definition createDriverLocation :: "driver_location \<Rightarrow> storage \<Rightarrow> storage" where
  "createDriverLocation l st = st\<lparr>driverLocations := (driverLocations st)(dl_driverId l \<mapsto> l)\<rparr>"

text \<open>
  Modelled from the spec: \<open>getAvailableDriversNearLocation(lat, lng, radiusMeters)\<close>
  is part of the same missing module and measures distances. Its answer, the list of the
  location rows it finds, is a parameter of the server: a function of the store, the origin
  and the radius.
\<close>

type_synonym locator = "storage \<Rightarrow> real option \<Rightarrow> real option \<Rightarrow> real \<Rightarrow> driver_location list"

section \<open>The server\<close>

text \<open>
  The state of \<open>RealTimeServer\<close>: the array \<open>clients\<close>, the sockets, the store, and for
  each connection whether its 30 second authentication timer is still armed (the local
  \<open>authTimeout\<close> of the connection callback).
\<close>

record state =
  clients :: "ConnectedClient list"
  sockets :: "conn \<Rightarrow> socket"
  store :: storage
  authTimeout :: "conn \<Rightarrow> bool"

abbreviation HEARTBEAT_INTERVAL :: int where "HEARTBEAT_INTERVAL \<equiv> 30000"
abbreviation HEARTBEAT_TIMEOUT :: int where "HEARTBEAT_TIMEOUT \<equiv> 60000"

text \<open>
  \<open>ws.send\<close>: the frame is written when the socket is open. The sockets of a server
  are never \<open>CONNECTING\<close>; on a closing or closed socket the library drops the frame.
\<close>

definition ws_send :: "conn \<Rightarrow> frame \<Rightarrow> state \<Rightarrow> state" where
  "ws_send w f s =
     (if readyState (sockets s w) = OPEN
      then s\<lparr>sockets := (sockets s)(w := (sockets s w)\<lparr>sent := sent (sockets s w) @ [f]\<rparr>)\<rparr>
      else s)"

text \<open>\<open>ws.close()\<close> starts the closing handshake; the \<open>close\<close> event comes later.\<close>

definition ws_close :: "conn \<Rightarrow> state \<Rightarrow> state" where
  "ws_close w s =
     (if readyState (sockets s w) = OPEN \<or> readyState (sockets s w) = CONNECTING
      then s\<lparr>sockets := (sockets s)(w := (sockets s w)\<lparr>readyState := CLOSING\<rparr>)\<rparr>
      else s)"

definition sendMessage :: "conn \<Rightarrow> string \<Rightarrow> payload \<Rightarrow> int \<Rightarrow> state \<Rightarrow> state" where
  "sendMessage w t p now s =
     (if readyState (sockets s w) = OPEN
      then ws_send w \<lparr>ftype = t, fpayload = p, ftimestamp = now\<rparr> s
      else s)"

definition sendError :: "conn \<Rightarrow> msg \<Rightarrow> int \<Rightarrow> state \<Rightarrow> state" where
  "sendError w m now s = sendMessage w ERROR (ErrorP m) now s"

definition broadcastToUser :: "int \<Rightarrow> string \<Rightarrow> string \<Rightarrow> payload \<Rightarrow> int \<Rightarrow> state \<Rightarrow> state" where
  "broadcastToUser uid utype t p now s =
     foldl (\<lambda>s' c. sendMessage (ws c) t p now s') s
       (filter (\<lambda>c. userId c = uid \<and> userType c = utype) (clients s))"

definition broadcastToUserType ::
  "string \<Rightarrow> string \<Rightarrow> payload \<Rightarrow> int list \<Rightarrow> int \<Rightarrow> state \<Rightarrow> state" where
  "broadcastToUserType utype t p excludeUsers now s =
     foldl (\<lambda>s' c. sendMessage (ws c) t p now s') s
       (filter (\<lambda>c. userType c = utype \<and> userId c \<notin> set excludeUsers) (clients s))"

definition broadcastAll :: "string \<Rightarrow> payload \<Rightarrow> int \<Rightarrow> state \<Rightarrow> state" where
  "broadcastAll t p now s = foldl (\<lambda>s' c. sendMessage (ws c) t p now s') s (clients s)"


subsection \<open>JavaScript truthiness and template strings\<close>

definition truthy_num :: "int option \<Rightarrow> bool" where
  "truthy_num x = (case x of None \<Rightarrow> False | Some n \<Rightarrow> n \<noteq> 0)"

definition truthy_str :: "string option \<Rightarrow> bool" where
  "truthy_str x = (case x of None \<Rightarrow> False | Some t \<Rightarrow> t \<noteq> [])"

definition str_or :: "string option \<Rightarrow> string \<Rightarrow> string" where
  "str_or x d = (case x of None \<Rightarrow> d | Some t \<Rightarrow> if t = [] then d else t)"

definition num_or :: "real option \<Rightarrow> real \<Rightarrow> real" where
  "num_or x d = (case x of None \<Rightarrow> d | Some v \<Rightarrow> if v = 0 then d else v)"

fun digits :: "nat \<Rightarrow> string" where
  "digits n =
     (if n < 10 then [char_of (48 + n)]
      else digits (n div 10) @ [char_of (48 + n mod 10)])"

declare digits.simps [simp del]

definition show_int :: "int \<Rightarrow> string" where
  "show_int i = (if i < 0 then CHR ''-'' # digits (nat (- i)) else digits (nat i))"

text \<open>\<open>findIndex\<close> of an array: the first index whose element satisfies the test.\<close>

fun findIndex :: "('a \<Rightarrow> bool) \<Rightarrow> 'a list \<Rightarrow> nat option" where
  "findIndex P [] = None"
| "findIndex P (x # xs) =
     (if P x then Some 0 else map_option Suc (findIndex P xs))"

text \<open>\<open>splice(i, 1)\<close>: the array without its element at index \<open>i\<close>.\<close>

definition splice1 :: "nat \<Rightarrow> 'a list \<Rightarrow> 'a list" where
  "splice1 i xs = take i xs @ drop (Suc i) xs"

subsection \<open>Handlers\<close>

text \<open>
  A handler returns \<open>None\<close> where the source throws before it has done anything:
  destructuring a payload that is absent is a \<open>TypeError\<close>. \<open>handleMessage\<close> catches it.
  Each handler runs here from its first line to its last without another handler in
  between; every \<open>Date.now()\<close> and \<open>new Date()\<close> of one run reads the same clock value
  \<open>now\<close>.
\<close>

definition merge_geo :: "geo \<Rightarrow> geo \<Rightarrow> geo" where
  "merge_geo new old =
     \<lparr>latitude = (case latitude new of None \<Rightarrow> latitude old | Some v \<Rightarrow> Some v),
      longitude = (case longitude new of None \<Rightarrow> longitude old | Some v \<Rightarrow> Some v),
      heading = (case heading new of None \<Rightarrow> heading old | Some v \<Rightarrow> Some v),
      speed = (case speed new of None \<Rightarrow> speed old | Some v \<Rightarrow> Some v),
      accuracy = (case accuracy new of None \<Rightarrow> accuracy old | Some v \<Rightarrow> Some v)\<rparr>"

definition handleDriverLocationUpdate ::
  "in_payload option \<Rightarrow> ConnectedClient \<Rightarrow> int \<Rightarrow> state \<Rightarrow> state option" where
  "handleDriverLocationUpdate payload client now s =
     (if userType client \<noteq> ''driver'' then Some (sendError (ws client) OnlyDriversLocation now s)
      else case payload of
        None \<Rightarrow> None
      | Some p \<Rightarrow>
          let s1 = s\<lparr>store := updateDriverLocation (userId client)
                      (\<lambda>l. l\<lparr>dl_geo := merge_geo (p_geo p) (dl_geo l),
                              dl_status := (case p_status p of None \<Rightarrow> dl_status l | Some v \<Rightarrow> v)\<rparr>)
                      (store s)\<rparr>
          in (case getDriverLocationByDriverId (store s1) (userId client) of
               None \<Rightarrow> Some s1
             | Some driverLocation \<Rightarrow>
                 (if truthy_num (currentRideId driverLocation) then
                    (case getRideById (store s1) (the (currentRideId driverLocation)) of
                       None \<Rightarrow> Some s1
                     | Some r \<Rightarrow>
                         (if truthy_num (ride_userId r) then
                            Some (broadcastToUser (the (ride_userId r)) ''passenger''
                                    DRIVER_LOCATION_UPDATE
                                    (DriverLocationP (userId client) (p_geo p)
                                       (the (currentRideId driverLocation))) now s1)
                          else Some s1))
                  else Some s1)))"

definition handleDriverStatusUpdate ::
  "in_payload option \<Rightarrow> ConnectedClient \<Rightarrow> int \<Rightarrow> state \<Rightarrow> state option" where
  "handleDriverStatusUpdate payload client now s =
     (if userType client \<noteq> ''driver'' then Some (sendError (ws client) OnlyDriversStatus now s)
      else case payload of
        None \<Rightarrow> None
      | Some p \<Rightarrow>
          Some (s\<lparr>store := updateDriverLocation (userId client)
                    (\<lambda>l. l\<lparr>dl_status := (case p_status p of None \<Rightarrow> dl_status l | Some v \<Rightarrow> v)\<rparr>)
                    (store s)\<rparr>))"

text \<open>
  The default text of \<open>notes\<close> in the test notification is a Portuguese literal of the
  source; it is written here without its diacritics.
\<close>

definition simulateRideRequestForTesting ::
  "in_payload option \<Rightarrow> ConnectedClient \<Rightarrow> int \<Rightarrow> state \<Rightarrow> state option" where
  "simulateRideRequestForTesting payload client now s =
     (case payload of
        None \<Rightarrow> None
      | Some p \<Rightarrow>
          let t = (p_trip p)\<lparr>originLatitude := None, originLongitude := None,
                            destinationLatitude := None, destinationLongitude := None\<rparr>;
              f = TestRideRequestP now t now (str_or (p_notes p) ''Solicitacao de teste'')
                    (num_or (estimatedDistance (p_trip p)) 5.2)
                    (num_or (estimatedDuration (p_trip p)) 15);
              s1 = foldl (\<lambda>s' c.
                      if userType c = ''driver'' \<and> readyState (sockets s' (ws c)) = OPEN
                      then sendMessage (ws c) NEW_RIDE_REQUEST f now s' else s')
                    s (clients s)
          in Some (sendMessage (ws client) RIDE_REQUEST_SUCCESS (AckP now TestSent) now s1))"

definition new_ride_frame :: "int \<Rightarrow> ConnectedClient \<Rightarrow> in_payload \<Rightarrow> int \<Rightarrow> storage \<Rightarrow> payload" where
  "new_ride_frame rid client p now st =
     (let passenger = getPassenger st (userId client);
          passengerName = str_or (case passenger of None \<Rightarrow> None | Some x \<Rightarrow> fullName x)
                            (''Passageiro #'' @ show_int (userId client));
          passengerPhone = str_or (case passenger of None \<Rightarrow> None | Some x \<Rightarrow> phoneNumber x)
                            ''(00) 00000-0000''
      in NewRideRequestP rid (userId client) passengerName passengerPhone (p_trip p) now)"

definition handleRideRequest ::
  "locator \<Rightarrow> in_payload option \<Rightarrow> ConnectedClient \<Rightarrow> int \<Rightarrow> state \<Rightarrow> state option" where
  "handleRideRequest locate payload client now s =
     (if userType client \<noteq> ''passenger'' \<and> userType client \<noteq> ''driver''
      then Some (sendError (ws client) OnlyPassengersAndDrivers now s)
      else if userType client = ''driver'' then simulateRideRequestForTesting payload client now s
      else case payload of
        None \<Rightarrow> Some (sendError (ws client) RequestFailed now s)
      | Some p \<Rightarrow>
          let (rid, st1) = createRideRequest (userId client) (p_trip p) now (store s);
              s1 = s\<lparr>store := st1\<rparr>;
              availableDrivers =
                locate st1 (originLatitude (p_trip p)) (originLongitude (p_trip p)) 10000;
              f = new_ride_frame rid client p now st1;
              s2 = (if length availableDrivers = 0
                    then foldl (\<lambda>s' driverClient. sendMessage (ws driverClient) NEW_RIDE_REQUEST f now s')
                           s1 (filter (\<lambda>c. userType c = ''driver'') (clients s1))
                    else foldl (\<lambda>s' driver.
                             broadcastToUser (dl_driverId driver) ''driver'' NEW_RIDE_REQUEST f now s')
                           s1 availableDrivers)
          in Some (sendMessage (ws client) RIDE_REQUEST (RideRequestAckP rid RequestCreated) now s2))"

definition handleRideAccepted ::
  "in_payload option \<Rightarrow> ConnectedClient \<Rightarrow> int \<Rightarrow> state \<Rightarrow> state option" where
  "handleRideAccepted payload client now s =
     (if userType client \<noteq> ''driver'' then Some (sendError (ws client) OnlyDriversAccept now s)
      else case payload of
        None \<Rightarrow> None
      | Some p \<Rightarrow>
          let rideRequestId = p_rideRequestId p in
          (case getRideById (store s) rideRequestId of
            None \<Rightarrow> Some (sendError (ws client) RideNotFound now s)
          | Some r \<Rightarrow>
              if ride_status r \<noteq> ''pending''
              then Some (sendError (ws client) RideNoLongerAvailable now s)
              else if (case getDriverLocationByDriverId (store s) (userId client) of
                         None \<Rightarrow> False
                       | Some driverLocation \<Rightarrow> truthy_num (currentRideId driverLocation))
              then Some (sendError (ws client) AlreadyInRide now s)
              else
                let s1 = s\<lparr>store := updateRide rideRequestId
                            (\<lambda>x. x\<lparr>ride_driverId := Some (userId client),
                                    ride_status := ''accepted''\<rparr>) (store s)\<rparr>;
                    s2 = s1\<lparr>store := updateDriverLocation (userId client)
                            (\<lambda>l. l\<lparr>currentRideId := Some rideRequestId, dl_status := ''busy''\<rparr>)
                            (store s1)\<rparr>;
                    s3 = (if truthy_num (ride_userId r)
                          then broadcastToUser (the (ride_userId r)) ''passenger'' RIDE_ACCEPTED
                                 (RideEventP rideRequestId (userId client) AcceptedByDriver) now s2
                          else s2);
                    s4 = broadcastToUserType ''driver'' RIDE_REJECTED
                           (RideRejectedP rideRequestId AcceptedByOther) [userId client] now s3
                in Some (sendMessage (ws client) RIDE_ACCEPTED (AckP rideRequestId AcceptOk) now s4)))"

definition handleRideStarted ::
  "in_payload option \<Rightarrow> ConnectedClient \<Rightarrow> int \<Rightarrow> state \<Rightarrow> state option" where
  "handleRideStarted payload client now s =
     (if userType client \<noteq> ''driver'' then Some (sendError (ws client) OnlyDriversStart now s)
      else case payload of
        None \<Rightarrow> None
      | Some p \<Rightarrow>
          let rideRequestId = p_rideRequestId p in
          (case getRideById (store s) rideRequestId of
            None \<Rightarrow> Some (sendError (ws client) RideNotFound now s)
          | Some r \<Rightarrow>
              if ride_driverId r \<noteq> Some (userId client)
              then Some (sendError (ws client) NotAssigned now s)
              else if ride_status r \<noteq> ''accepted''
              then Some (sendError (ws client) CannotStart now s)
              else
                let s1 = s\<lparr>store := updateRide rideRequestId
                            (\<lambda>x. x\<lparr>ride_status := ''active'', startTime := Some now\<rparr>) (store s)\<rparr>;
                    s2 = (if truthy_num (ride_userId r)
                          then broadcastToUser (the (ride_userId r)) ''passenger'' RIDE_STARTED
                                 (RideEventP rideRequestId (userId client) RideWasStarted) now s1
                          else s1)
                in Some (sendMessage (ws client) RIDE_STARTED (AckP rideRequestId StartOk) now s2)))"

definition handleRideCompleted ::
  "in_payload option \<Rightarrow> ConnectedClient \<Rightarrow> int \<Rightarrow> state \<Rightarrow> state option" where
  "handleRideCompleted payload client now s =
     (if userType client \<noteq> ''driver'' then Some (sendError (ws client) OnlyDriversComplete now s)
      else case payload of
        None \<Rightarrow> None
      | Some p \<Rightarrow>
          let rideRequestId = p_rideRequestId p in
          (case getRideById (store s) rideRequestId of
            None \<Rightarrow> Some (sendError (ws client) RideNotFound now s)
          | Some r \<Rightarrow>
              if ride_driverId r \<noteq> Some (userId client)
              then Some (sendError (ws client) NotAssigned now s)
              else if ride_status r \<noteq> ''active''
              then Some (sendError (ws client) NotActive now s)
              else
                let s1 = s\<lparr>store := updateRide rideRequestId
                            (\<lambda>x. x\<lparr>ride_status := ''completed'', endTime := Some now\<rparr>) (store s)\<rparr>;
                    s2 = s1\<lparr>store := updateDriverLocation (userId client)
                            (\<lambda>l. l\<lparr>currentRideId := None, dl_status := ''available''\<rparr>)
                            (store s1)\<rparr>;
                    s3 = (if truthy_num (ride_userId r)
                          then broadcastToUser (the (ride_userId r)) ''passenger'' RIDE_COMPLETED
                                 (RideCompletedP rideRequestId (userId client) (ride_amount r)
                                    RideWasCompleted) now s2
                          else s2)
                in Some (sendMessage (ws client) RIDE_COMPLETED (AckP rideRequestId CompleteOk) now s3)))"

definition handleRideCanceled ::
  "in_payload option \<Rightarrow> ConnectedClient \<Rightarrow> int \<Rightarrow> state \<Rightarrow> state option" where
  "handleRideCanceled payload client now s =
     (case payload of
        None \<Rightarrow> None
      | Some p \<Rightarrow>
          let rideRequestId = p_rideRequestId p; reason = p_reason p in
          (case getRideById (store s) rideRequestId of
            None \<Rightarrow> Some (sendError (ws client) RideNotFound now s)
          | Some r \<Rightarrow>
              if userType client = ''passenger'' \<and> ride_userId r \<noteq> Some (userId client)
              then Some (sendError (ws client) CannotCancel now s)
              else if userType client = ''driver'' \<and> ride_driverId r \<noteq> Some (userId client)
              then Some (sendError (ws client) CannotCancel now s)
              else
                let s1 = s\<lparr>store := updateRide rideRequestId
                            (\<lambda>x. x\<lparr>ride_status := ''canceled''\<rparr>) (store s)\<rparr>;
                    s2 = (if truthy_num (ride_driverId r)
                          then s1\<lparr>store := updateDriverLocation (the (ride_driverId r))
                                 (\<lambda>l. l\<lparr>currentRideId := None, dl_status := ''available''\<rparr>)
                                 (store s1)\<rparr>
                          else s1);
                    s3 = (if userType client = ''passenger'' \<and> truthy_num (ride_driverId r)
                          then broadcastToUser (the (ride_driverId r)) ''driver'' RIDE_CANCELED
                                 (RideCanceledP rideRequestId ''passenger'' reason CanceledByPassenger)
                                 now s2
                          else if userType client = ''driver'' \<and> truthy_num (ride_userId r)
                          then broadcastToUser (the (ride_userId r)) ''passenger'' RIDE_CANCELED
                                 (RideCanceledP rideRequestId ''driver'' reason CanceledByDriver)
                                 now s2
                          else s2)
                in Some (sendMessage (ws client) RIDE_CANCELED (AckP rideRequestId CancelOk) now s3)))"


subsection \<open>The router\<close>

definition handleMessage ::
  "locator \<Rightarrow> string \<Rightarrow> in_payload option \<Rightarrow> ConnectedClient \<Rightarrow> int \<Rightarrow> state \<Rightarrow> state" where
  "handleMessage locate t payload client now s =
     (case (if t = DRIVER_LOCATION_UPDATE then handleDriverLocationUpdate payload client now s
            else if t = DRIVER_STATUS_UPDATE then handleDriverStatusUpdate payload client now s
            else if t = RIDE_REQUEST then handleRideRequest locate payload client now s
            else if t = RIDE_ACCEPTED then handleRideAccepted payload client now s
            else if t = RIDE_STARTED then handleRideStarted payload client now s
            else if t = RIDE_COMPLETED then handleRideCompleted payload client now s
            else if t = RIDE_CANCELED then handleRideCanceled payload client now s
            else if t = PING then Some (sendMessage (ws client) PONG EmptyP now s)
            else Some s) of
        None \<Rightarrow> sendError (ws client) InternalError now s
      | Some s' \<Rightarrow> s')"

text \<open>The callback of \<open>wss.on('connection')\<close>, up to the registration of the listeners.\<close>

definition on_connection :: "conn \<Rightarrow> int \<Rightarrow> state \<Rightarrow> state" where
  "on_connection w now s =
     s\<lparr>clients := clients s @ [\<lparr>ws = w, userId = 0, userType = ''passenger'', lastActivity = now\<rparr>],
       sockets := (sockets s)(w := \<lparr>readyState = OPEN, sent = []\<rparr>),
       authTimeout := (authTimeout s)(w := True)\<rparr>"

text \<open>The timer set at connection, when it fires 30 seconds later without having been cleared.\<close>

definition on_auth_timeout :: "conn \<Rightarrow> int \<Rightarrow> state \<Rightarrow> state" where
  "on_auth_timeout w now s =
     (if authTimeout s w then
        (let s1 = s\<lparr>authTimeout := (authTimeout s)(w := False)\<rparr>
         in if readyState (sockets s1 w) = OPEN
            then ws_close w (sendError w AuthTimeoutMsg now s1)
            else s1)
      else s)"

text \<open>The branch of the \<open>message\<close> listener for the types \<open>auth\<close> and \<open>ping\<close>.\<close>

definition authenticate :: "conn \<Rightarrow> in_payload option \<Rightarrow> int \<Rightarrow> state \<Rightarrow> state" where
  "authenticate w payload now s =
     (let s0 = s\<lparr>authTimeout := (authTimeout s)(w := False)\<rparr>;
          uid = (case payload of None \<Rightarrow> None | Some p \<Rightarrow> p_userId p);
          utype = (case payload of None \<Rightarrow> None | Some p \<Rightarrow> p_userType p)
      in if \<not> truthy_num uid \<or> \<not> truthy_str utype then sendError w InvalidAuthData now s0
         else
           let userExists =
                 (if the utype = ''driver'' then getUser (store s0) (the uid)
                  else if the utype = ''passenger'' then getPassenger (store s0) (the uid) \<noteq> None
                  else True)
           in if \<not> userExists then sendError w UserNotFound now s0
              else
                let client = \<lparr>ws = w, userId = the uid, userType = the utype, lastActivity = now\<rparr>;
                    s1 = s0\<lparr>clients :=
                            filter (\<lambda>c. \<not> (userId c = the uid \<and> userType c = the utype)) (clients s0)
                            @ [client]\<rparr>;
                    s2 = ws_send w \<lparr>ftype = ''auth_success'',
                                    fpayload = AuthSuccessP (the uid) (the utype),
                                    ftimestamp = now\<rparr> s1
                in if the utype = ''driver'' then
                     (case getDriverLocationByDriverId (store s2) (the uid) of
                        Some location \<Rightarrow>
                          s2\<lparr>store := updateDriverLocation (the uid)
                                (\<lambda>l. l\<lparr>dl_status :=
                                   (if truthy_num (currentRideId location) then ''busy''
                                    else ''available'')\<rparr>) (store s2)\<rparr>
                      | None \<Rightarrow>
                          s2\<lparr>store := createDriverLocation
                                \<lparr>dl_driverId = the uid,
                                 dl_geo = \<lparr>latitude = Some 0, longitude = Some 0, heading = None,
                                           speed = None, accuracy = None\<rparr>,
                                 dl_status = ''offline'', currentRideId = None\<rparr> (store s2)\<rparr>)
                   else s2)"

text \<open>The \<open>message\<close> listener of a connection.\<close>

definition on_message :: "locator \<Rightarrow> conn \<Rightarrow> inbound \<Rightarrow> int \<Rightarrow> state \<Rightarrow> state" where
  "on_message locate w m now s =
     (case m of
        Malformed \<Rightarrow> sendError w ProcessingError now s
      | Frame t payload \<Rightarrow>
          if t = ''auth'' \<or> t = PING then authenticate w payload now s
          else
            (case findIndex (\<lambda>client. ws client = w) (clients s) of
               None \<Rightarrow> sendError w NotAuthenticated now s
             | Some clientIndex \<Rightarrow>
                 let s1 = s\<lparr>clients := (clients s)
                            [clientIndex := (clients s ! clientIndex)\<lparr>lastActivity := now\<rparr>]\<rparr>
                 in handleMessage locate t payload (clients s1 ! clientIndex) now s1))"

text \<open>The \<open>close\<close> listener of a connection.\<close>

definition on_close :: "conn \<Rightarrow> state \<Rightarrow> state" where
  "on_close w s =
     (let s0 = s\<lparr>sockets := (sockets s)(w := (sockets s w)\<lparr>readyState := CLOSED\<rparr>),
                 authTimeout := (authTimeout s)(w := False)\<rparr>
      in case findIndex (\<lambda>client. ws client = w) (clients s0) of
           None \<Rightarrow> s0
         | Some clientIndex \<Rightarrow>
             let c = clients s0 ! clientIndex;
                 s1 = (if userType c = ''driver''
                       then s0\<lparr>store := updateDriverLocation (userId c)
                                 (\<lambda>l. l\<lparr>dl_status := ''offline''\<rparr>) (store s0)\<rparr>
                       else s0)
             in s1\<lparr>clients := splice1 clientIndex (clients s1)\<rparr>)"

subsection \<open>The heartbeat\<close>

text \<open>
  The callback that \<open>setupHeartbeat\<close> passes to \<open>forEach\<close>, at the index \<open>index\<close>.
  \<open>forEach\<close> reads the length of the array once, before the first call, and then visits
  the indices \<open>0\<close> to \<open>len - 1\<close> in order, each time reading the element that is at
  that index now and skipping an index that the array no longer has. The callback removes
  elements from the array that is being traversed.
\<close>

definition heartbeat_visit :: "int \<Rightarrow> nat \<Rightarrow> state \<Rightarrow> state" where
  "heartbeat_visit now index s =
     (if index < length (clients s) then
        (let client = clients s ! index
         in if now - lastActivity client > HEARTBEAT_TIMEOUT then
              (let s1 = (if readyState (sockets s (ws client)) = OPEN
                         then ws_close (ws client) s else s)
               in s1\<lparr>clients := splice1 index (clients s1)\<rparr>)
            else s)
      else s)"

function heartbeat_loop :: "int \<Rightarrow> nat \<Rightarrow> nat \<Rightarrow> state \<Rightarrow> state" where
  "heartbeat_loop now k len s =
     (if k < len then heartbeat_loop now (Suc k) len (heartbeat_visit now k s) else s)"
  by pat_completeness auto
termination
  by (relation "measure (\<lambda>(now, k, len, s). len - k)") auto

declare heartbeat_loop.simps [simp del]

definition heartbeat :: "int \<Rightarrow> state \<Rightarrow> state" where
  "heartbeat now s = heartbeat_loop now 0 (length (clients s)) s"

subsection \<open>Runs of the server\<close>

text \<open>
  What can happen to the server, with the clock value at that moment: a connection opens,
  a message arrives on a connection, a connection closes, the authentication timer of a
  connection fires, the heartbeat interval elapses, one of the public broadcast methods
  is called.
\<close>

datatype event =
    Connection conn int
  | Message conn inbound int
  | Close conn
  | AuthTimer conn int
  | Heartbeat int
  | Broadcast string string int

fun step :: "locator \<Rightarrow> event \<Rightarrow> state \<Rightarrow> state" where
  "step locate (Connection w now) s = on_connection w now s"
| "step locate (Message w m now) s = on_message locate w m now s"
| "step locate (Close w) s = on_close w s"
| "step locate (AuthTimer w now) s = on_auth_timeout w now s"
| "step locate (Heartbeat now) s = heartbeat now s"
| "step locate (Broadcast t cfg now) s = broadcastAll t (ConfigP cfg) now s"

fun run :: "locator \<Rightarrow> event list \<Rightarrow> state \<Rightarrow> state" where
  "run locate [] s = s"
| "run locate (e # es) s = run locate es (step locate e s)"

definition init :: "storage \<Rightarrow> state" where
  "init st = \<lparr>clients = [], sockets = (\<lambda>w. \<lparr>readyState = CLOSED, sent = []\<rparr>), store = st,
              authTimeout = (\<lambda>w. False)\<rparr>"

subsection \<open>Interleaved runs of \<open>handleRideAccepted\<close>\<close>

text \<open>
  \<open>handleRideAccepted\<close> is an \<open>async\<close> function, and the \<open>message\<close> listener does not
  wait for it: at each \<open>await\<close> of a store call the handler is suspended and the handlers
  of other connections may run. \<open>accept_step\<close> runs one handler from one suspension
  point to the next; the store call it was waiting for takes effect when it resumes.
\<close>

datatype accept_pc =
    AtStart
  | AwaitGetRide
  | AwaitGetLocation ride
  | AwaitUpdateRide ride
  | AwaitUpdateLocation ride
  | Finished
  | Thrown

definition accept_step ::
  "in_payload option \<Rightarrow> ConnectedClient \<Rightarrow> int \<Rightarrow> accept_pc \<Rightarrow> state \<Rightarrow> accept_pc \<times> state" where
  "accept_step payload client now pc s =
     (case pc of
        AtStart \<Rightarrow>
          (if userType client \<noteq> ''driver''
           then (Finished, sendError (ws client) OnlyDriversAccept now s)
           else case payload of None \<Rightarrow> (Thrown, s) | Some p \<Rightarrow> (AwaitGetRide, s))
      | AwaitGetRide \<Rightarrow>
          (case getRideById (store s) (p_rideRequestId (the payload)) of
             None \<Rightarrow> (Finished, sendError (ws client) RideNotFound now s)
           | Some r \<Rightarrow>
               if ride_status r \<noteq> ''pending''
               then (Finished, sendError (ws client) RideNoLongerAvailable now s)
               else (AwaitGetLocation r, s))
      | AwaitGetLocation r \<Rightarrow>
          (if (case getDriverLocationByDriverId (store s) (userId client) of
                 None \<Rightarrow> False
               | Some driverLocation \<Rightarrow> truthy_num (currentRideId driverLocation))
           then (Finished, sendError (ws client) AlreadyInRide now s)
           else (AwaitUpdateRide r, s))
      | AwaitUpdateRide r \<Rightarrow>
          (AwaitUpdateLocation r,
           s\<lparr>store := updateRide (p_rideRequestId (the payload))
                 (\<lambda>x. x\<lparr>ride_driverId := Some (userId client), ride_status := ''accepted''\<rparr>)
                 (store s)\<rparr>)
      | AwaitUpdateLocation r \<Rightarrow>
          (let rideRequestId = p_rideRequestId (the payload);
               s2 = s\<lparr>store := updateDriverLocation (userId client)
                       (\<lambda>l. l\<lparr>currentRideId := Some rideRequestId, dl_status := ''busy''\<rparr>)
                       (store s)\<rparr>;
               s3 = (if truthy_num (ride_userId r)
                     then broadcastToUser (the (ride_userId r)) ''passenger'' RIDE_ACCEPTED
                            (RideEventP rideRequestId (userId client) AcceptedByDriver) now s2
                     else s2);
               s4 = broadcastToUserType ''driver'' RIDE_REJECTED
                      (RideRejectedP rideRequestId AcceptedByOther) [userId client] now s3
           in (Finished,
               sendMessage (ws client) RIDE_ACCEPTED (AckP rideRequestId AcceptOk) now s4))
      | Finished \<Rightarrow> (Finished, s)
      | Thrown \<Rightarrow> (Thrown, s))"

text \<open>
  Several handlers in flight, one per attempt; a schedule names, step by step, the attempt
  that runs next.
\<close>

fun accept_run ::
  "(in_payload option \<times> ConnectedClient) list \<Rightarrow> int \<Rightarrow> nat list \<Rightarrow>
   accept_pc list \<times> state \<Rightarrow> accept_pc list \<times> state" where
  "accept_run attempts now [] (pcs, s) = (pcs, s)"
| "accept_run attempts now (i # sched) (pcs, s) =
     (if i < length attempts \<and> i < length pcs then
        (let (pc', s') = accept_step (fst (attempts ! i)) (snd (attempts ! i)) now (pcs ! i) s
         in accept_run attempts now sched (pcs[i := pc'], s'))
      else accept_run attempts now sched (pcs, s))"


section \<open>Identities in the registry\<close>

text \<open>
  The identities bound in the registry: the pair of \<open>userId\<close> and \<open>userType\<close> of every
  client whose \<open>userId\<close> is set. A placeholder, registered at connection, has the
  \<open>userId\<close> 0, which no authentication accepts.
\<close>

definition bound_ids :: "ConnectedClient list \<Rightarrow> (int \<times> string) list" where
  "bound_ids cs = map (\<lambda>c. (userId c, userType c)) (filter (\<lambda>c. userId c \<noteq> 0) cs)"

definition unique_ids :: "state \<Rightarrow> bool" where
  "unique_ids s = distinct (bound_ids (clients s))"

section \<open>Example data\<close>

text \<open>
  Concrete inputs for the closed theorems below: a passenger with id 10, drivers with ids
  20 and 21, and a ride with id 1 that belongs to the passenger.
\<close>

definition no_trip :: trip where
  "no_trip = \<lparr>originLatitude = None, originLongitude = None, originAddress = None,
     destinationLatitude = None, destinationLongitude = None, destinationAddress = None,
     estimatedDistance = None, estimatedDuration = None, estimatedPrice = None\<rparr>"

definition no_geo :: geo where
  "no_geo = \<lparr>latitude = None, longitude = None, heading = None, speed = None, accuracy = None\<rparr>"

definition auth_payload :: "int \<Rightarrow> string \<Rightarrow> in_payload" where
  "auth_payload uid utype =
     \<lparr>p_userId = Some uid, p_userType = Some utype, p_rideRequestId = 0, p_reason = None,
      p_status = None, p_geo = no_geo, p_trip = no_trip, p_notes = None\<rparr>"

definition ride_payload :: "int \<Rightarrow> in_payload" where
  "ride_payload rid =
     \<lparr>p_userId = None, p_userType = None, p_rideRequestId = rid, p_reason = None,
      p_status = None, p_geo = no_geo, p_trip = no_trip, p_notes = None\<rparr>"

definition ride_of :: "string \<Rightarrow> int option \<Rightarrow> ride" where
  "ride_of status driver =
     \<lparr>ride_userId = Some 10, ride_driverId = driver, ride_status = status, ride_amount = None,
      ride_trip = no_trip, requestTime = 0, startTime = None, endTime = None\<rparr>"

definition location_of :: "int \<Rightarrow> string \<Rightarrow> int option \<Rightarrow> driver_location" where
  "location_of d status rid =
     \<lparr>dl_driverId = d, dl_geo = no_geo, dl_status = status, currentRideId = rid\<rparr>"

definition store_of :: "ride \<Rightarrow> (int \<rightharpoonup> driver_location) \<Rightarrow> storage" where
  "store_of r locs =
     \<lparr>users = {20, 21}, passengers = [10 \<mapsto> \<lparr>fullName = None, phoneNumber = None\<rparr>],
      rides = [1 \<mapsto> r], driverLocations = locs, nextRideId = 2\<rparr>"

definition passenger10 :: ConnectedClient where
  "passenger10 = \<lparr>ws = 1, userId = 10, userType = ''passenger'', lastActivity = 0\<rparr>"

definition driver20 :: ConnectedClient where
  "driver20 = \<lparr>ws = 2, userId = 20, userType = ''driver'', lastActivity = 0\<rparr>"

definition driver21 :: ConnectedClient where
  "driver21 = \<lparr>ws = 3, userId = 21, userType = ''driver'', lastActivity = 0\<rparr>"

definition sessions :: "storage \<Rightarrow> state" where
  "sessions st =
     \<lparr>clients = [passenger10, driver20, driver21],
      sockets = (\<lambda>w. \<lparr>readyState = (if w = 1 \<or> w = 2 \<or> w = 3 then OPEN else CLOSED), sent = []\<rparr>),
      store = st, authTimeout = (\<lambda>w. False)\<rparr>"

definition nobody :: locator where
  "nobody = (\<lambda>st lat lng radius. [])"

text \<open>
  A run in which the passenger and the two drivers each open a connection and authenticate
  on it, the state it leads to, and further runs from there.
\<close>

definition scenario :: "event list" where
  "scenario =
     [Connection 1 0, Message 1 (Frame ''auth'' (Some (auth_payload 10 ''passenger''))) 1,
      Connection 2 2, Message 2 (Frame ''auth'' (Some (auth_payload 20 ''driver''))) 3,
      Connection 3 4, Message 3 (Frame ''auth'' (Some (auth_payload 21 ''driver''))) 5]"

definition idle_drivers :: "int \<rightharpoonup> driver_location" where
  "idle_drivers =
     [20 \<mapsto> location_of 20 ''available'' None, 21 \<mapsto> location_of 21 ''available'' None]"

definition logged_in :: state where
  "logged_in = run nobody scenario (init (store_of (ride_of ''pending'' None) idle_drivers))"

definition taken_ride :: state where
  "taken_ride =
     run nobody scenario
       (init (store_of (ride_of ''accepted'' (Some 20))
          [20 \<mapsto> location_of 20 ''busy'' (Some 1), 21 \<mapsto> location_of 21 ''available'' None]))"

definition stale_scan :: state where
  "stale_scan =
     run nobody (scenario @ [Message 1 (Frame ''hello'' None) 50000, Heartbeat 90000])
       (init (store_of (ride_of ''pending'' None) idle_drivers))"

definition first_login :: state where
  "first_login =
     run nobody
       [Connection 1 0, Message 1 (Frame ''auth'' (Some (auth_payload 20 ''driver''))) 1,
        Connection 2 2]
       (init (store_of (ride_of ''pending'' None) idle_drivers))"

definition both_logins :: state where
  "both_logins =
     run nobody
       [Connection 1 0, Message 1 (Frame ''auth'' (Some (auth_payload 20 ''driver''))) 1,
        Connection 2 2, Message 2 (Frame ''auth'' (Some (auth_payload 20 ''driver''))) 3]
       (init (store_of (ride_of ''pending'' None) idle_drivers))"

section \<open>Sending changes neither the registry nor the store\<close>

lemma sendMessage_store [simp]: "store (sendMessage w t p now s) = store s"
  by (simp add: sendMessage_def ws_send_def)

lemma sendMessage_clients [simp]: "clients (sendMessage w t p now s) = clients s"
  by (simp add: sendMessage_def ws_send_def)

lemma sendMessage_authTimeout [simp]: "authTimeout (sendMessage w t p now s) = authTimeout s"
  by (simp add: sendMessage_def ws_send_def)

lemma sendMessage_readyState [simp]:
  "readyState (sockets (sendMessage w t p now s) w') = readyState (sockets s w')"
  by (simp add: sendMessage_def ws_send_def)

lemma sendMessage_other: "w' \<noteq> w \<Longrightarrow> sockets (sendMessage w t p now s) w' = sockets s w'"
  by (simp add: sendMessage_def ws_send_def)

lemma sendMessage_open:
  "readyState (sockets s w) = OPEN \<Longrightarrow>
   sent (sockets (sendMessage w t p now s) w) =
   sent (sockets s w) @ [\<lparr>ftype = t, fpayload = p, ftimestamp = now\<rparr>]"
  by (simp add: sendMessage_def ws_send_def)

lemma sendError_store [simp]: "store (sendError w m now s) = store s"
  by (simp add: sendError_def)

lemma sendError_clients [simp]: "clients (sendError w m now s) = clients s"
  by (simp add: sendError_def)

lemma sendError_authTimeout [simp]: "authTimeout (sendError w m now s) = authTimeout s"
  by (simp add: sendError_def)

lemma sendError_readyState [simp]:
  "readyState (sockets (sendError w m now s) w') = readyState (sockets s w')"
  by (simp add: sendError_def)

lemma sends_store [simp]:
  "store (foldl (\<lambda>s' c. sendMessage (g c) t p now s') s cs) = store s"
  by (induction cs arbitrary: s) simp_all

lemma sends_clients [simp]:
  "clients (foldl (\<lambda>s' c. sendMessage (g c) t p now s') s cs) = clients s"
  by (induction cs arbitrary: s) simp_all

lemma sends_authTimeout [simp]:
  "authTimeout (foldl (\<lambda>s' c. sendMessage (g c) t p now s') s cs) = authTimeout s"
  by (induction cs arbitrary: s) simp_all

lemma sends_readyState [simp]:
  "readyState (sockets (foldl (\<lambda>s' c. sendMessage (g c) t p now s') s cs) w) =
   readyState (sockets s w)"
  by (induction cs arbitrary: s) simp_all

lemma broadcastToUser_store [simp]: "store (broadcastToUser u ut t p now s) = store s"
  by (simp add: broadcastToUser_def)

lemma broadcastToUser_clients [simp]: "clients (broadcastToUser u ut t p now s) = clients s"
  by (simp add: broadcastToUser_def)

lemma broadcastToUser_readyState [simp]:
  "readyState (sockets (broadcastToUser u ut t p now s) w) = readyState (sockets s w)"
  by (simp add: broadcastToUser_def)

lemma broadcastToUserType_store [simp]: "store (broadcastToUserType ut t p ex now s) = store s"
  by (simp add: broadcastToUserType_def)

lemma broadcastToUserType_clients [simp]:
  "clients (broadcastToUserType ut t p ex now s) = clients s"
  by (simp add: broadcastToUserType_def)

lemma broadcastToUserType_readyState [simp]:
  "readyState (sockets (broadcastToUserType ut t p ex now s) w) = readyState (sockets s w)"
  by (simp add: broadcastToUserType_def)

section \<open>Accepting a ride that is no longer pending\<close>

text \<open>
  The handler by itself, for a client whose role is driver: when the frame names an
  existing ride whose status is not \<open>pending\<close>, all it does is send the error "ride no
  longer available" to that client.
\<close>

lemma handleRideAccepted_not_pending:
  assumes "userType client = ''driver''"
    and "getRideById (store s) (p_rideRequestId p) = Some r"
    and "ride_status r \<noteq> ''pending''"
  shows "handleRideAccepted (Some p) client now s =
           Some (sendError (ws client) RideNoLongerAvailable now s)"
  using assms by (simp add: handleRideAccepted_def)

text \<open>\<open>findIndex\<close> returns an index of the array, whose element satisfies the test.\<close>

lemma findIndex_Some: "findIndex P xs = Some i \<Longrightarrow> i < length xs \<and> P (xs ! i)"
proof (induction xs arbitrary: i)
  case Nil
  then show ?case by simp
next
  case (Cons x xs)
  show ?case
  proof (cases "P x")
    case True
    then show ?thesis using Cons.prems by simp
  next
    case False
    then obtain j where "findIndex P xs = Some j" and "i = Suc j"
      using Cons.prems by auto
    then show ?thesis using Cons.IH by simp
  qed
qed

text \<open>
  The listener hands a frame to the handlers under the first client registered for the
  connection. When that client is not a driver, a \<open>ride_accepted\<close> frame is answered
  with the error "only drivers can accept rides", whatever the ride.
\<close>

lemma accept_frame_under_other_role:
  assumes "findIndex (\<lambda>client. ws client = w) (clients s) = Some i"
    and "userType (clients s ! i) \<noteq> ''driver''"
  shows "on_message locate w (Frame RIDE_ACCEPTED payload) now s =
           sendError w OnlyDriversAccept now
             (s\<lparr>clients := (clients s)[i := (clients s ! i)\<lparr>lastActivity := now\<rparr>]\<rparr>)"
proof -
  have "i < length (clients s)" and "ws (clients s ! i) = w"
    using findIndex_Some [OF assms(1)] by simp_all
  then show ?thesis
    using assms by (simp add: on_message_def handleMessage_def handleRideAccepted_def)
qed

text \<open>
  C3. Drivers 20 and 21 have authenticated on connections 2 and 3, and ride 1 has been
  accepted by driver 20. When driver 21 then sends \<open>ride_accepted\<close> for ride 1 on its
  connection, nothing is written (the ride row and the location row of driver 21 are as
  they were), and the driver receives one error frame; but the frame is handled under the
  placeholder of the connection, so the error is "only drivers can accept rides" and not
  "ride no longer available".
\<close>

theorem conflict_frame_gets_role_error:
  "(let s = on_message nobody 3 (Frame RIDE_ACCEPTED (Some (ride_payload 1))) 6 taken_ride
    in map fpayload (sent (sockets s 3)) = [AuthSuccessP 21 ''driver'', ErrorP OnlyDriversAccept]
       \<and> ErrorP RideNoLongerAvailable \<notin> set (map fpayload (sent (sockets s 3)))
       \<and> readyState (sockets taken_ride 3) = OPEN
       \<and> getRideById (store taken_ride) 1 = Some (ride_of ''accepted'' (Some 20))
       \<and> getRideById (store s) 1 = Some (ride_of ''accepted'' (Some 20))
       \<and> getDriverLocationByDriverId (store s) 21 =
           getDriverLocationByDriverId (store taken_ride) 21
       \<and> filter (\<lambda>c. userId c = 21) (clients taken_ride) =
           [\<lparr>ws = 3, userId = 21, userType = ''driver'', lastActivity = 5\<rparr>])"
  by code_simp

section \<open>Completion\<close>

text \<open>
  C7. Completion frees the driver: when \<open>handleRideCompleted\<close> runs for a client whose
  role is driver, on a ride that is assigned to that driver and has status \<open>active\<close>,
  it succeeds: afterwards the ride has status \<open>completed\<close> and its end time is the
  time of the call, the DriverLocation row of the driver has status \<open>available\<close> and
  no current ride, and on an open connection the last frame the driver has received is
  the acknowledgement of the completion.
\<close>

theorem completed_frees_driver:
  assumes "userType client = ''driver''"
    and "getRideById (store s) (p_rideRequestId p) = Some r"
    and "ride_driverId r = Some (userId client)"
    and "ride_status r = ''active''"
  shows "\<exists>s'. handleRideCompleted (Some p) client now s = Some s'
           \<and> getRideById (store s') (p_rideRequestId p) =
               Some (r\<lparr>ride_status := ''completed'', endTime := Some now\<rparr>)
           \<and> (\<forall>l. getDriverLocationByDriverId (store s) (userId client) = Some l \<longrightarrow>
                 getDriverLocationByDriverId (store s') (userId client) =
                   Some (l\<lparr>currentRideId := None, dl_status := ''available''\<rparr>))
           \<and> (readyState (sockets s (ws client)) = OPEN \<longrightarrow>
                last (sent (sockets s' (ws client))) =
                  \<lparr>ftype = RIDE_COMPLETED, fpayload = AckP (p_rideRequestId p) CompleteOk,
                   ftimestamp = now\<rparr>)"
  using assms
  by (auto simp add: handleRideCompleted_def Let_def getRideById_def updateRide_def
      getDriverLocationByDriverId_def updateDriverLocation_def sendMessage_open
      split: option.splits)

theorem completed_frees_driver_witness:
  "userType driver20 = ''driver''
   \<and> getRideById (store (sessions (store_of (ride_of ''active'' (Some 20))
          [20 \<mapsto> location_of 20 ''busy'' (Some 1)]))) (p_rideRequestId (ride_payload 1))
        = Some (ride_of ''active'' (Some 20))
   \<and> ride_driverId (ride_of ''active'' (Some 20)) = Some (userId driver20)
   \<and> ride_status (ride_of ''active'' (Some 20)) = ''active''
   \<and> getDriverLocationByDriverId (store (sessions (store_of (ride_of ''active'' (Some 20))
          [20 \<mapsto> location_of 20 ''busy'' (Some 1)]))) (userId driver20)
        = Some (location_of 20 ''busy'' (Some 1))
   \<and> readyState (sockets (sessions (store_of (ride_of ''active'' (Some 20))
          [20 \<mapsto> location_of 20 ''busy'' (Some 1)])) (ws driver20)) = OPEN
   \<and> (\<exists>s'. handleRideCompleted (Some (ride_payload 1)) driver20 9
              (sessions (store_of (ride_of ''active'' (Some 20))
                 [20 \<mapsto> location_of 20 ''busy'' (Some 1)])) = Some s'
         \<and> getRideById (store s') 1 =
             Some ((ride_of ''completed'' (Some 20))\<lparr>endTime := Some 9\<rparr>)
         \<and> getDriverLocationByDriverId (store s') 20 = Some (location_of 20 ''available'' None)
         \<and> last (sent (sockets s' 2)) =
             \<lparr>ftype = RIDE_COMPLETED, fpayload = AckP 1 CompleteOk, ftimestamp = 9\<rparr>)"
  using completed_frees_driver
    [of driver20 "sessions (store_of (ride_of ''active'' (Some 20))
                    [20 \<mapsto> location_of 20 ''busy'' (Some 1)])"
        "ride_payload 1" "ride_of ''active'' (Some 20)" 9]
  by (simp add: driver20_def sessions_def store_of_def ride_of_def ride_payload_def
      location_of_def getRideById_def getDriverLocationByDriverId_def)


section \<open>Authentication with another role\<close>

text \<open>
  C10. An \<open>auth\<close> frame whose payload has a truthy \<open>userId\<close> and a truthy \<open>userType\<close>
  that is neither \<open>driver\<close> nor \<open>passenger\<close> (for example \<open>admin\<close>) authenticates:
  the registry loses the entries of that identity and gains the new client, and on an open
  connection \<open>auth_success\<close> is sent. The store is not consulted: it is unchanged, and
  replacing it by any other store gives the same outcome, so every \<open>userId\<close> is accepted
  for such a role.
\<close>

theorem auth_other_role_no_lookup:
  assumes "p_userId p = Some uid" and "uid \<noteq> 0"
    and "p_userType p = Some utype" and "utype \<noteq> []"
    and "utype \<noteq> ''driver''" and "utype \<noteq> ''passenger''"
  shows "clients (on_message locate w (Frame ''auth'' (Some p)) now s) =
           filter (\<lambda>c. \<not> (userId c = uid \<and> userType c = utype)) (clients s)
           @ [\<lparr>ws = w, userId = uid, userType = utype, lastActivity = now\<rparr>]
         \<and> (readyState (sockets s w) = OPEN \<longrightarrow>
              sent (sockets (on_message locate w (Frame ''auth'' (Some p)) now s) w) =
              sent (sockets s w) @
                [\<lparr>ftype = ''auth_success'', fpayload = AuthSuccessP uid utype, ftimestamp = now\<rparr>])
         \<and> store (on_message locate w (Frame ''auth'' (Some p)) now s) = store s
         \<and> (\<forall>st. on_message locate w (Frame ''auth'' (Some p)) now (s\<lparr>store := st\<rparr>) =
                  (on_message locate w (Frame ''auth'' (Some p)) now s)\<lparr>store := st\<rparr>)"
  using assms
  by (simp add: on_message_def authenticate_def Let_def truthy_num_def truthy_str_def ws_send_def)

theorem auth_other_role_no_lookup_witness:
  "p_userId (auth_payload 99 ''admin'') = Some 99 \<and> (99::int) \<noteq> 0
   \<and> p_userType (auth_payload 99 ''admin'') = Some ''admin'' \<and> ''admin'' \<noteq> []
   \<and> ''admin'' \<noteq> ''driver'' \<and> ''admin'' \<noteq> ''passenger''
   \<and> 99 \<notin> users (store_of (ride_of ''pending'' None) Map.empty)
   \<and> clients (on_message nobody 4 (Frame ''auth'' (Some (auth_payload 99 ''admin''))) 3
        (on_connection 4 2 (sessions (store_of (ride_of ''pending'' None) Map.empty)))) =
       [passenger10, driver20, driver21,
        \<lparr>ws = 4, userId = 0, userType = ''passenger'', lastActivity = 2\<rparr>,
        \<lparr>ws = 4, userId = 99, userType = ''admin'', lastActivity = 3\<rparr>]
   \<and> sent (sockets (on_message nobody 4 (Frame ''auth'' (Some (auth_payload 99 ''admin''))) 3
        (on_connection 4 2 (sessions (store_of (ride_of ''pending'' None) Map.empty)))) 4) =
       [\<lparr>ftype = ''auth_success'', fpayload = AuthSuccessP 99 ''admin'', ftimestamp = 3\<rparr>]"
proof -
  let ?s = "on_connection 4 2 (sessions (store_of (ride_of ''pending'' None) Map.empty))"
  have h1: "p_userId (auth_payload 99 ''admin'') = Some 99"
    and h3: "p_userType (auth_payload 99 ''admin'') = Some ''admin''"
    by (simp_all add: auth_payload_def)
  have h2: "(99::int) \<noteq> 0" and h4: "''admin'' \<noteq> []"
    and h5: "''admin'' \<noteq> ''driver''" and h6: "''admin'' \<noteq> ''passenger''"
    by simp_all
  have u: "99 \<notin> users (store_of (ride_of ''pending'' None) Map.empty)"
    by (simp add: store_of_def)
  have c: "clients ?s = [passenger10, driver20, driver21,
             \<lparr>ws = 4, userId = 0, userType = ''passenger'', lastActivity = 2\<rparr>]"
    by (simp add: on_connection_def sessions_def)
  have k: "filter (\<lambda>c. \<not> (userId c = 99 \<and> userType c = ''admin'')) (clients ?s) = clients ?s"
    unfolding c by (simp add: passenger10_def driver20_def driver21_def)
  have o: "readyState (sockets ?s 4) = OPEN" and e: "sent (sockets ?s 4) = []"
    by (simp_all add: on_connection_def)
  have t1: "clients (on_message nobody 4 (Frame ''auth'' (Some (auth_payload 99 ''admin''))) 3 ?s)
              = clients ?s @ [\<lparr>ws = 4, userId = 99, userType = ''admin'', lastActivity = 3\<rparr>]"
    using auth_other_role_no_lookup [OF h1 h2 h3 h4 h5 h6, of nobody 4 3 ?s] k by simp
  have t2: "sent (sockets (on_message nobody 4 (Frame ''auth'' (Some (auth_payload 99 ''admin''))) 3 ?s) 4)
              = [\<lparr>ftype = ''auth_success'', fpayload = AuthSuccessP 99 ''admin'', ftimestamp = 3\<rparr>]"
    using auth_other_role_no_lookup [OF h1 h2 h3 h4 h5 h6, of nobody 4 3 ?s] o e by simp
  show ?thesis
    using h1 h2 h3 h4 h5 h6 u t1 t2 unfolding c by simp
qed

section \<open>A ride request that finds no driver\<close>

lemma sendMessage_mono:
  "set (sent (sockets s w')) \<subseteq> set (sent (sockets (sendMessage w t p now s) w'))"
  by (auto simp add: sendMessage_def ws_send_def)

lemma sends_mono:
  "set (sent (sockets s w)) \<subseteq> set (sent (sockets (foldl (\<lambda>s' c. sendMessage (g c) t p now s') s cs) w))"
proof (induction cs arbitrary: s)
  case Nil
  then show ?case by simp
next
  case (Cons c cs)
  have "set (sent (sockets s w)) \<subseteq> set (sent (sockets (sendMessage (g c) t p now s) w))"
    by (rule sendMessage_mono)
  also have "\<dots> \<subseteq> set (sent (sockets (foldl (\<lambda>s' c. sendMessage (g c) t p now s')
                        (sendMessage (g c) t p now s) cs) w))"
    by (rule Cons.IH)
  finally show ?case by simp
qed

lemma sends_reach:
  assumes "c \<in> set cs" and "readyState (sockets s (g c)) = OPEN"
  shows "\<lparr>ftype = t, fpayload = p, ftimestamp = now\<rparr>
           \<in> set (sent (sockets (foldl (\<lambda>s' c. sendMessage (g c) t p now s') s cs) (g c)))"
  using assms
proof (induction cs arbitrary: s)
  case Nil
  then show ?case by simp
next
  case (Cons x xs)
  show ?case
  proof (cases "x = c")
    case True
    have "\<lparr>ftype = t, fpayload = p, ftimestamp = now\<rparr>
            \<in> set (sent (sockets (sendMessage (g c) t p now s) (g c)))"
      using Cons.prems(2) by (simp add: sendMessage_open)
    then show ?thesis
      using True sends_mono [of "sendMessage (g c) t p now s" "g c" g t p now xs] by auto
  next
    case False
    then have "c \<in> set xs" using Cons.prems(1) by simp
    moreover have "readyState (sockets (sendMessage (g x) t p now s) (g c)) = OPEN"
      using Cons.prems(2) by simp
    ultimately show ?thesis using Cons.IH by simp
  qed
qed

lemma show_int_10: "show_int 10 = ''10''"
  by code_simp

text \<open>
  C8. Fallback broadcast: when \<open>handleRideRequest\<close> runs for a client whose role is
  passenger and the driver locator finds no available driver within 10000 metres of the
  origin, the ride row is created all the same (pending, owned by the passenger), every
  registered driver client whose connection is open receives a \<open>new_ride_request\<close> frame
  that carries the id of the created ride, the id of the passenger, the name and the phone
  number of the passenger (or their defaults) and the trip of the request, and on an open
  connection the last frame the passenger has received is the acknowledgement with the id of
  the ride.
\<close>

theorem fallback_broadcast:
  assumes "userType client = ''passenger''"
    and "locate (snd (createRideRequest (userId client) (p_trip p) now (store s)))
           (originLatitude (p_trip p)) (originLongitude (p_trip p)) 10000 = []"
  shows "\<exists>s'. handleRideRequest locate (Some p) client now s = Some s'
           \<and> getRideById (store s') (nextRideId (store s)) =
               Some \<lparr>ride_userId = Some (userId client), ride_driverId = None,
                     ride_status = ''pending'', ride_amount = None, ride_trip = p_trip p,
                     requestTime = now, startTime = None, endTime = None\<rparr>
           \<and> (\<forall>c \<in> set (clients s).
                 userType c = ''driver'' \<and> readyState (sockets s (ws c)) = OPEN \<longrightarrow>
                 \<lparr>ftype = NEW_RIDE_REQUEST,
                  fpayload =
                    NewRideRequestP (nextRideId (store s)) (userId client)
                      (str_or (case getPassenger (store s) (userId client) of
                                 None \<Rightarrow> None | Some x \<Rightarrow> fullName x)
                         (''Passageiro #'' @ show_int (userId client)))
                      (str_or (case getPassenger (store s) (userId client) of
                                 None \<Rightarrow> None | Some x \<Rightarrow> phoneNumber x)
                         ''(00) 00000-0000'')
                      (p_trip p) now,
                  ftimestamp = now\<rparr> \<in> set (sent (sockets s' (ws c))))
           \<and> (readyState (sockets s (ws client)) = OPEN \<longrightarrow>
                last (sent (sockets s' (ws client))) =
                  \<lparr>ftype = RIDE_REQUEST,
                   fpayload = RideRequestAckP (nextRideId (store s)) RequestCreated,
                   ftimestamp = now\<rparr>)"
proof -
  let ?st1 = "snd (createRideRequest (userId client) (p_trip p) now (store s))"
  let ?rid = "nextRideId (store s)"
  let ?s1 = "s\<lparr>store := ?st1\<rparr>"
  let ?f = "new_ride_frame ?rid client p now (store s)"
  let ?s2 = "foldl (\<lambda>s' driverClient. sendMessage (ws driverClient) NEW_RIDE_REQUEST ?f now s')
               ?s1 (filter (\<lambda>c. userType c = ''driver'') (clients ?s1))"
  let ?s' = "sendMessage (ws client) RIDE_REQUEST (RideRequestAckP ?rid RequestCreated) now ?s2"
  have frame: "new_ride_frame ?rid client p now ?st1 = ?f"
    by (simp add: new_ride_frame_def createRideRequest_def getPassenger_def)
  have run: "handleRideRequest locate (Some p) client now s = Some ?s'"
    using assms frame
    by (simp add: handleRideRequest_def Let_def split_beta createRideRequest_def)
  have row: "getRideById (store ?s') ?rid =
               Some \<lparr>ride_userId = Some (userId client), ride_driverId = None,
                     ride_status = ''pending'', ride_amount = None, ride_trip = p_trip p,
                     requestTime = now, startTime = None, endTime = None\<rparr>"
    by (simp add: getRideById_def createRideRequest_def)
  have drivers: "\<lparr>ftype = NEW_RIDE_REQUEST, fpayload = ?f, ftimestamp = now\<rparr>
                   \<in> set (sent (sockets ?s' (ws c)))"
    if "c \<in> set (clients s)" and "userType c = ''driver''"
      and "readyState (sockets s (ws c)) = OPEN" for c
  proof -
    have "c \<in> set (filter (\<lambda>c. userType c = ''driver'') (clients ?s1))"
      using that by simp
    moreover have "readyState (sockets ?s1 (ws c)) = OPEN"
      using that by simp
    ultimately have "\<lparr>ftype = NEW_RIDE_REQUEST, fpayload = ?f, ftimestamp = now\<rparr>
                       \<in> set (sent (sockets ?s2 (ws c)))"
      by (rule sends_reach)
    then show ?thesis
      using sendMessage_mono [of ?s2 "ws c"] by blast
  qed
  have ack: "last (sent (sockets ?s' (ws client))) =
               \<lparr>ftype = RIDE_REQUEST, fpayload = RideRequestAckP ?rid RequestCreated,
                ftimestamp = now\<rparr>"
    if "readyState (sockets s (ws client)) = OPEN"
  proof -
    have "readyState (sockets ?s2 (ws client)) = OPEN"
      using that by simp
    then show ?thesis by (simp add: sendMessage_open)
  qed
  have fdef: "?f =
                NewRideRequestP (nextRideId (store s)) (userId client)
                    (str_or (case getPassenger (store s) (userId client) of
                               None \<Rightarrow> None | Some x \<Rightarrow> fullName x)
                       (''Passageiro #'' @ show_int (userId client)))
                    (str_or (case getPassenger (store s) (userId client) of
                               None \<Rightarrow> None | Some x \<Rightarrow> phoneNumber x)
                       ''(00) 00000-0000'')
                    (p_trip p) now"
    by (simp add: new_ride_frame_def Let_def)
  have named: "\<lparr>ftype = NEW_RIDE_REQUEST,
                 fpayload =
                   NewRideRequestP (nextRideId (store s)) (userId client)
                      (str_or (case getPassenger (store s) (userId client) of
                                 None \<Rightarrow> None | Some x \<Rightarrow> fullName x)
                         (''Passageiro #'' @ show_int (userId client)))
                      (str_or (case getPassenger (store s) (userId client) of
                                 None \<Rightarrow> None | Some x \<Rightarrow> phoneNumber x)
                         ''(00) 00000-0000'')
                      (p_trip p) now,
                 ftimestamp = now\<rparr> \<in> set (sent (sockets ?s' (ws c)))"
    if "c \<in> set (clients s)" and "userType c = ''driver''"
      and "readyState (sockets s (ws c)) = OPEN" for c
    using drivers [OF that] unfolding fdef .
  show ?thesis
    using run row named ack by blast
qed

theorem fallback_broadcast_witness:
  "userType passenger10 = ''passenger''
   \<and> nobody (snd (createRideRequest (userId passenger10) (p_trip (ride_payload 0)) 5
               (store (sessions (store_of (ride_of ''completed'' (Some 20)) Map.empty)))))
        (originLatitude (p_trip (ride_payload 0))) (originLongitude (p_trip (ride_payload 0)))
        10000 = []
   \<and> (\<exists>s'. handleRideRequest nobody (Some (ride_payload 0)) passenger10 5
              (sessions (store_of (ride_of ''completed'' (Some 20)) Map.empty)) = Some s'
         \<and> getRideById (store s') 2 = Some ((ride_of ''pending'' None)\<lparr>requestTime := 5\<rparr>)
         \<and> \<lparr>ftype = NEW_RIDE_REQUEST,
             fpayload = NewRideRequestP 2 10 ''Passageiro #10'' ''(00) 00000-0000'' no_trip 5,
             ftimestamp = 5\<rparr> \<in> set (sent (sockets s' 2))
         \<and> \<lparr>ftype = NEW_RIDE_REQUEST,
             fpayload = NewRideRequestP 2 10 ''Passageiro #10'' ''(00) 00000-0000'' no_trip 5,
             ftimestamp = 5\<rparr> \<in> set (sent (sockets s' 3))
         \<and> last (sent (sockets s' 1)) =
             \<lparr>ftype = RIDE_REQUEST, fpayload = RideRequestAckP 2 RequestCreated,
              ftimestamp = 5\<rparr>)"
proof -
  let ?s = "sessions (store_of (ride_of ''completed'' (Some 20)) Map.empty)"
  have h1: "userType passenger10 = ''passenger''"
    by (simp add: passenger10_def)
  have h2: "nobody (snd (createRideRequest (userId passenger10) (p_trip (ride_payload 0)) 5
               (store ?s)))
        (originLatitude (p_trip (ride_payload 0))) (originLongitude (p_trip (ride_payload 0)))
        10000 = []"
    by (simp add: nobody_def)
  have n: "nextRideId (store ?s) = 2"
    by (simp add: sessions_def store_of_def)
  have f: "NewRideRequestP 2 (userId passenger10)
             (str_or (case getPassenger (store ?s) (userId passenger10) of
                        None \<Rightarrow> None | Some x \<Rightarrow> fullName x)
                (''Passageiro #'' @ show_int (userId passenger10)))
             (str_or (case getPassenger (store ?s) (userId passenger10) of
                        None \<Rightarrow> None | Some x \<Rightarrow> phoneNumber x)
                ''(00) 00000-0000'')
             (p_trip (ride_payload 0)) 5 =
             NewRideRequestP 2 10 ''Passageiro #10'' ''(00) 00000-0000'' no_trip 5"
    by (simp add: getPassenger_def sessions_def store_of_def passenger10_def
        ride_payload_def str_or_def show_int_10)
  have r: "\<lparr>ride_userId = Some (userId passenger10), ride_driverId = None,
            ride_status = ''pending'', ride_amount = None, ride_trip = p_trip (ride_payload 0),
            requestTime = 5, startTime = None, endTime = None\<rparr>
           = (ride_of ''pending'' None)\<lparr>requestTime := 5\<rparr>"
    by (simp add: ride_of_def passenger10_def ride_payload_def)
  have d20: "driver20 \<in> set (clients ?s)" and d21: "driver21 \<in> set (clients ?s)"
    by (simp_all add: sessions_def)
  have o: "userType driver20 = ''driver'' \<and> readyState (sockets ?s (ws driver20)) = OPEN"
    "userType driver21 = ''driver'' \<and> readyState (sockets ?s (ws driver21)) = OPEN"
    "readyState (sockets ?s (ws passenger10)) = OPEN"
    by (simp_all add: sessions_def driver20_def driver21_def passenger10_def)
  have w: "ws driver20 = 2" "ws driver21 = 3" "ws passenger10 = 1"
    by (simp_all add: driver20_def driver21_def passenger10_def)
  from fallback_broadcast [where client = passenger10 and locate = nobody
      and p = "ride_payload 0" and now = 5 and s = ?s, OF h1 h2] obtain s' where
    s': "handleRideRequest nobody (Some (ride_payload 0)) passenger10 5 ?s = Some s'"
      "getRideById (store s') (nextRideId (store ?s)) =
         Some \<lparr>ride_userId = Some (userId passenger10), ride_driverId = None,
            ride_status = ''pending'', ride_amount = None, ride_trip = p_trip (ride_payload 0),
            requestTime = 5, startTime = None, endTime = None\<rparr>"
      "\<forall>c \<in> set (clients ?s).
         userType c = ''driver'' \<and> readyState (sockets ?s (ws c)) = OPEN \<longrightarrow>
         \<lparr>ftype = NEW_RIDE_REQUEST,
          fpayload =
            NewRideRequestP (nextRideId (store ?s)) (userId passenger10)
              (str_or (case getPassenger (store ?s) (userId passenger10) of
                         None \<Rightarrow> None | Some x \<Rightarrow> fullName x)
                 (''Passageiro #'' @ show_int (userId passenger10)))
              (str_or (case getPassenger (store ?s) (userId passenger10) of
                         None \<Rightarrow> None | Some x \<Rightarrow> phoneNumber x)
                 ''(00) 00000-0000'')
              (p_trip (ride_payload 0)) 5,
          ftimestamp = 5\<rparr> \<in> set (sent (sockets s' (ws c)))"
      "readyState (sockets ?s (ws passenger10)) = OPEN \<longrightarrow>
         last (sent (sockets s' (ws passenger10))) =
           \<lparr>ftype = RIDE_REQUEST,
            fpayload = RideRequestAckP (nextRideId (store ?s)) RequestCreated,
            ftimestamp = 5\<rparr>"
    by blast
  have a: "getRideById (store s') 2 = Some ((ride_of ''pending'' None)\<lparr>requestTime := 5\<rparr>)"
    using s'(2) unfolding n r .
  have b: "\<lparr>ftype = NEW_RIDE_REQUEST,
             fpayload = NewRideRequestP 2 10 ''Passageiro #10'' ''(00) 00000-0000'' no_trip 5,
             ftimestamp = 5\<rparr> \<in> set (sent (sockets s' 2))"
    using s'(3) d20 o(1) unfolding n f w(1) [symmetric] by blast
  have c: "\<lparr>ftype = NEW_RIDE_REQUEST,
             fpayload = NewRideRequestP 2 10 ''Passageiro #10'' ''(00) 00000-0000'' no_trip 5,
             ftimestamp = 5\<rparr> \<in> set (sent (sockets s' 3))"
    using s'(3) d21 o(2) unfolding n f w(2) [symmetric] by blast
  have d: "last (sent (sockets s' 1)) =
             \<lparr>ftype = RIDE_REQUEST, fpayload = RideRequestAckP 2 RequestCreated,
              ftimestamp = 5\<rparr>"
    using s'(4) o(3) unfolding n w(3) [symmetric] by blast
  show ?thesis
    using h1 h2 s'(1) a b c d by blast
qed


section \<open>Concurrent acceptance\<close>

text \<open>
  Five steps of one handler, with no other handler in between, are the handler itself.
\<close>

lemma accept_steps_atomic:
  "accept_run [(payload, client)] now [0, 0, 0, 0, 0] ([AtStart], s) =
     (case handleRideAccepted payload client now s of
        None \<Rightarrow> ([Thrown], s)
      | Some s' \<Rightarrow> ([Finished], s'))"
  by (simp add: accept_step_def handleRideAccepted_def Let_def split: option.split)

text \<open>
  When the second attempt starts only after the first has finished, the second driver is
  refused.
\<close>

lemma sequential_accepts_one_succeeds:
  "(let (pcs, s) = accept_run [(Some (ride_payload 1), driver20), (Some (ride_payload 1), driver21)]
                     8 [0, 0, 0, 0, 0, 1, 1, 1, 1, 1] ([AtStart, AtStart],
                     sessions (store_of (ride_of ''pending'' None) idle_drivers))
    in pcs = [Finished, Finished]
       \<and> map fpayload (sent (sockets s 2)) = [AckP 1 AcceptOk]
       \<and> map fpayload (sent (sockets s 3)) =
            [RideRejectedP 1 AcceptedByOther, ErrorP RideNoLongerAvailable]
       \<and> getRideById (store s) 1 = Some (ride_of ''accepted'' (Some 20)))"
  by code_simp

text \<open>
  C1. The check of the status and the write of the new status are two store calls of
  \<open>handleRideAccepted\<close>, with suspension points between them. In the run below drivers
  20 and 21 both send \<open>ride_accepted\<close> for the pending ride 1, and the handler of driver
  21 reads the ride before the handler of driver 20 has written it. Both attempts succeed:
  each driver receives the acknowledgement of the acceptance, the passenger is told of two
  acceptances, the ride ends with driver 21 (the assignment to driver 20 is overwritten),
  and the location rows of both drivers are busy with ride 1.
\<close>

theorem interleaved_accepts_both_succeed:
  "(let (pcs, s) = accept_run [(Some (ride_payload 1), driver20), (Some (ride_payload 1), driver21)]
                     8 [0, 0, 1, 1, 0, 0, 0, 1, 1, 1] ([AtStart, AtStart],
                     sessions (store_of (ride_of ''pending'' None) idle_drivers))
    in pcs = [Finished, Finished]
       \<and> map fpayload (sent (sockets s 2)) = [AckP 1 AcceptOk, RideRejectedP 1 AcceptedByOther]
       \<and> map fpayload (sent (sockets s 3)) = [RideRejectedP 1 AcceptedByOther, AckP 1 AcceptOk]
       \<and> map fpayload (sent (sockets s 1)) =
            [RideEventP 1 20 AcceptedByDriver, RideEventP 1 21 AcceptedByDriver]
       \<and> getRideById (store s) 1 = Some (ride_of ''accepted'' (Some 21))
       \<and> getDriverLocationByDriverId (store s) 20 = Some (location_of 20 ''busy'' (Some 1))
       \<and> getDriverLocationByDriverId (store s) 21 = Some (location_of 21 ''busy'' (Some 1)))"
  by code_simp

section \<open>Frames after authentication\<close>

text \<open>
  C2. After the passenger and the two drivers have each authenticated on their own
  connection, the registry holds two clients for every connection: the placeholder
  registered at connection (passenger, \<open>userId\<close> 0) and, behind it, the authenticated
  client. The listener looks the client up by connection and takes the first. So the
  \<open>ride_accepted\<close> frame of driver 20 for the pending ride 1 is handled under the
  placeholder: the driver receives the error "only drivers can accept rides", the
  passenger and the other driver receive nothing, and the ride stays pending without a
  driver.
\<close>

theorem accept_frame_handled_as_placeholder:
  "(let s = on_message nobody 2 (Frame RIDE_ACCEPTED (Some (ride_payload 1))) 6 logged_in
    in map fpayload (sent (sockets s 2)) = [AuthSuccessP 20 ''driver'', ErrorP OnlyDriversAccept]
       \<and> map fpayload (sent (sockets s 1)) = [AuthSuccessP 10 ''passenger'']
       \<and> map fpayload (sent (sockets s 3)) = [AuthSuccessP 21 ''driver'']
       \<and> getRideById (store s) 1 = Some (ride_of ''pending'' None)
       \<and> findIndex (\<lambda>client. ws client = 2) (clients logged_in) = Some 2
       \<and> clients logged_in ! 2 = \<lparr>ws = 2, userId = 0, userType = ''passenger'', lastActivity = 2\<rparr>
       \<and> clients logged_in ! 3 = \<lparr>ws = 2, userId = 20, userType = ''driver'', lastActivity = 3\<rparr>)"
  by code_simp

section \<open>Cancelling a ride that has ended\<close>

text \<open>
  C4. \<open>handleRideCanceled\<close> does not read the status of the ride. When the passenger
  who owns ride 1 sends \<open>ride_canceled\<close> after the ride was completed by driver 20, the
  status of the ride changes from \<open>completed\<close> to \<open>canceled\<close>, the location row of
  driver 20, who is busy with ride 7 by then, is reset to available with no current ride,
  and the passenger receives the acknowledgement of the cancellation.
\<close>

theorem cancel_after_completion:
  "(case handleRideCanceled (Some (ride_payload 1)) passenger10 9
           (sessions (store_of (ride_of ''completed'' (Some 20))
              [20 \<mapsto> location_of 20 ''busy'' (Some 7)])) of
      None \<Rightarrow> False
    | Some s \<Rightarrow>
        getRideById (store s) 1 = Some (ride_of ''canceled'' (Some 20))
        \<and> getDriverLocationByDriverId (store s) 20 = Some (location_of 20 ''available'' None)
        \<and> map fpayload (sent (sockets s 1)) = [AckP 1 CancelOk])"
  by code_simp

section \<open>The heartbeat scan\<close>

lemma ws_close_clients [simp]: "clients (ws_close w s) = clients s"
  by (simp add: ws_close_def)

lemma ws_close_store [simp]: "store (ws_close w s) = store s"
  by (simp add: ws_close_def)

lemma ws_send_clients [simp]: "clients (ws_send w f s) = clients s"
  by (simp add: ws_send_def)

lemma ws_send_store [simp]: "store (ws_send w f s) = store s"
  by (simp add: ws_send_def)

lemma ws_send_readyState [simp]:
  "readyState (sockets (ws_send w f s) w') = readyState (sockets s w')"
  by (simp add: ws_send_def)

lemma broadcasts_clients [simp]:
  "clients (foldl (\<lambda>s' d. broadcastToUser (g d) ut t p now s') s ds) = clients s"
  by (induction ds arbitrary: s) simp_all

lemma guarded_sends_clients [simp]:
  "clients (foldl (\<lambda>s' c. if P s' c then sendMessage (g c) t p now s' else s') s cs) = clients s"
  by (induction cs arbitrary: s) simp_all

lemma broadcastAll_clients [simp]: "clients (broadcastAll t p now s) = clients s"
  by (simp add: broadcastAll_def)

lemma heartbeat_visit_store [simp]: "store (heartbeat_visit now k s) = store s"
  by (simp add: heartbeat_visit_def Let_def)

lemma heartbeat_loop_store [simp]: "store (heartbeat_loop now k len s) = store s"
proof (induction now k len s rule: heartbeat_loop.induct)
  case (1 now k len s)
  then show ?case
    by (cases "k < len") (simp_all add: heartbeat_loop.simps [of now k len s])
qed

lemma heartbeat_store: "store (heartbeat now s) = store s"
  by (simp add: heartbeat_def)

text \<open>
  C5. The scan removes clients from the array it is traversing, so the client behind a
  removed one is not visited, and the scan never writes to the store. In the run below
  the passenger and both drivers authenticate in the first seconds, the passenger sends one
  more frame at 50 s, and the scan runs at 90 s, when the drivers have been silent for more
  than 60 s. After the scan the placeholders of both driver connections, idle for more than
  60 s, are still registered. The scan has removed the authenticated clients of the
  drivers and closed their connections; when the connections then close, the listener
  finds the placeholder (a passenger) on each, so that the location rows of drivers 20 and
  21 keep the status \<open>available\<close> and never become \<open>offline\<close>.
\<close>

theorem heartbeat_leaves_stale_and_online:
  "clients stale_scan =
     [\<lparr>ws = 1, userId = 0, userType = ''passenger'', lastActivity = 50000\<rparr>,
      \<lparr>ws = 2, userId = 0, userType = ''passenger'', lastActivity = 2\<rparr>,
      \<lparr>ws = 3, userId = 0, userType = ''passenger'', lastActivity = 4\<rparr>]
   \<and> 90000 - 2 > HEARTBEAT_TIMEOUT \<and> 90000 - 4 > HEARTBEAT_TIMEOUT
   \<and> map (\<lambda>w. readyState (sockets stale_scan w)) [1, 2, 3] = [CLOSING, CLOSING, CLOSING]
   \<and> getDriverLocationByDriverId (store stale_scan) 20 = Some (location_of 20 ''available'' None)
   \<and> getDriverLocationByDriverId (store stale_scan) 21 = Some (location_of 21 ''available'' None)
   \<and> clients (run nobody [Close 1, Close 2, Close 3] stale_scan) = []
   \<and> getDriverLocationByDriverId (store (run nobody [Close 1, Close 2, Close 3] stale_scan)) 20
       = Some (location_of 20 ''available'' None)
   \<and> getDriverLocationByDriverId (store (run nobody [Close 1, Close 2, Close 3] stale_scan)) 21
       = Some (location_of 21 ''available'' None)"
  by code_simp

section \<open>One client per identity\<close>

lemma handleDriverLocationUpdate_clients:
  "case_option True (\<lambda>s'. clients s' = clients s) (handleDriverLocationUpdate payload client now s)"
  by (simp add: handleDriverLocationUpdate_def Let_def split: option.split)

lemma handleDriverStatusUpdate_clients:
  "case_option True (\<lambda>s'. clients s' = clients s) (handleDriverStatusUpdate payload client now s)"
  by (simp add: handleDriverStatusUpdate_def split: option.split)

lemma simulateRideRequestForTesting_clients:
  "case_option True (\<lambda>s'. clients s' = clients s) (simulateRideRequestForTesting payload client now s)"
  by (simp add: simulateRideRequestForTesting_def Let_def split: option.split)

lemma handleRideAccepted_clients:
  "case_option True (\<lambda>s'. clients s' = clients s) (handleRideAccepted payload client now s)"
  by (simp add: handleRideAccepted_def Let_def split: option.split)

lemma handleRideStarted_clients:
  "case_option True (\<lambda>s'. clients s' = clients s) (handleRideStarted payload client now s)"
  by (simp add: handleRideStarted_def Let_def split: option.split)

lemma handleRideCompleted_clients:
  "case_option True (\<lambda>s'. clients s' = clients s) (handleRideCompleted payload client now s)"
  by (simp add: handleRideCompleted_def Let_def split: option.split)

lemma handleRideCanceled_clients:
  "case_option True (\<lambda>s'. clients s' = clients s) (handleRideCanceled payload client now s)"
  by (simp add: handleRideCanceled_def Let_def split: option.split)


lemma handleRideRequest_clients:
  "case_option True (\<lambda>s'. clients s' = clients s) (handleRideRequest locate payload client now s)"
proof (cases "userType client = ''driver''")
  case True
  then show ?thesis
    using simulateRideRequestForTesting_clients [of s payload client now]
    by (simp add: handleRideRequest_def)
next
  case False
  then show ?thesis
    by (simp add: handleRideRequest_def Let_def split_beta split: option.split)
qed

lemma handleMessage_clients: "clients (handleMessage locate t payload client now s) = clients s"
proof -
  have "clients (case_option (sendError (ws client) InternalError now s) (\<lambda>s'. s') r) = clients s"
    if "case_option True (\<lambda>s'. clients s' = clients s) r" for r
    using that by (cases r) simp_all
  then show ?thesis
    unfolding handleMessage_def
    using handleDriverLocationUpdate_clients [of s payload client now]
      handleDriverStatusUpdate_clients [of s payload client now]
      handleRideRequest_clients [of s locate payload client now]
      handleRideAccepted_clients [of s payload client now]
      handleRideStarted_clients [of s payload client now]
      handleRideCompleted_clients [of s payload client now]
      handleRideCanceled_clients [of s payload client now]
    by simp
qed

lemma bound_ids_append [simp]: "bound_ids (xs @ ys) = bound_ids xs @ bound_ids ys"
  by (simp add: bound_ids_def)

lemma bound_ids_touch [simp]:
  "bound_ids (cs[i := (cs ! i)\<lparr>lastActivity := now\<rparr>]) = bound_ids cs"
proof (induction cs arbitrary: i)
  case Nil
  then show ?case by simp
next
  case (Cons c cs)
  then show ?case by (cases i) (simp_all add: bound_ids_def)
qed

lemma bound_ids_splice1: "distinct (bound_ids cs) \<Longrightarrow> distinct (bound_ids (splice1 i cs))"
proof (cases "i < length cs")
  case True
  assume d: "distinct (bound_ids cs)"
  have "cs = take i cs @ cs ! i # drop (Suc i) cs"
    using True by (rule id_take_nth_drop)
  then have "bound_ids cs = bound_ids (take i cs) @ bound_ids [cs ! i] @ bound_ids (drop (Suc i) cs)"
    by (metis append_Cons append_Nil bound_ids_append)
  with d show ?thesis by (auto simp add: splice1_def)
next
  case False
  assume "distinct (bound_ids cs)"
  with False show ?thesis by (simp add: splice1_def)
qed

lemma bound_ids_filter_subset: "set (bound_ids (filter Q cs)) \<subseteq> set (bound_ids cs)"
  by (auto simp add: bound_ids_def)

lemma bound_ids_filter_distinct:
  "distinct (bound_ids cs) \<Longrightarrow> distinct (bound_ids (filter Q cs))"
proof (induction cs)
  case Nil
  then show ?case by simp
next
  case (Cons c cs)
  then show ?case
    using bound_ids_filter_subset [of Q cs] by (auto simp add: bound_ids_def)
qed

lemma evicted_absent:
  "(uid, ut) \<notin> set (bound_ids (filter (\<lambda>c. \<not> (userId c = uid \<and> userType c = ut)) cs))"
  by (auto simp add: bound_ids_def)

lemma bound_ids_evict:
  assumes "uid \<noteq> 0" and "distinct (bound_ids cs)"
  shows "distinct (bound_ids (filter (\<lambda>c. \<not> (userId c = uid \<and> userType c = ut)) cs
             @ [\<lparr>ws = w, userId = uid, userType = ut, lastActivity = now\<rparr>]))"
proof -
  have "bound_ids [\<lparr>ws = w, userId = uid, userType = ut, lastActivity = now\<rparr>] = [(uid, ut)]"
    using assms(1) by (simp add: bound_ids_def)
  moreover have "distinct (bound_ids (filter (\<lambda>c. \<not> (userId c = uid \<and> userType c = ut)) cs))"
    using assms(2) by (rule bound_ids_filter_distinct)
  ultimately show ?thesis
    using evicted_absent [of uid ut cs] by simp
qed

lemma on_connection_unique: "unique_ids s \<Longrightarrow> unique_ids (on_connection w now s)"
  by (simp add: unique_ids_def on_connection_def bound_ids_def)

lemma authenticate_clients:
  "clients (authenticate w payload now s) = clients s
   \<or> (\<exists>uid ut. uid \<noteq> 0 \<and> clients (authenticate w payload now s) =
         filter (\<lambda>c. \<not> (userId c = uid \<and> userType c = ut)) (clients s)
         @ [\<lparr>ws = w, userId = uid, userType = ut, lastActivity = now\<rparr>])"
  by (cases payload)
     (auto simp add: authenticate_def Let_def truthy_num_def split: option.splits)

lemma authenticate_unique:
  assumes "unique_ids s"
  shows "unique_ids (authenticate w payload now s)"
proof -
  consider "clients (authenticate w payload now s) = clients s"
    | uid ut where "uid \<noteq> 0"
        and "clients (authenticate w payload now s) =
               filter (\<lambda>c. \<not> (userId c = uid \<and> userType c = ut)) (clients s)
               @ [\<lparr>ws = w, userId = uid, userType = ut, lastActivity = now\<rparr>]"
    using authenticate_clients [of w payload now s] by blast
  then show ?thesis
  proof cases
    case 1
    then show ?thesis using assms by (simp add: unique_ids_def)
  next
    case 2
    show ?thesis
      unfolding unique_ids_def 2(2)
      using 2(1) assms [unfolded unique_ids_def] by (rule bound_ids_evict)
  qed
qed

lemma on_message_unique: "unique_ids s \<Longrightarrow> unique_ids (on_message locate w m now s)"
  by (cases m)
     (auto simp add: on_message_def unique_ids_def handleMessage_clients Let_def
        dest: authenticate_unique [unfolded unique_ids_def] split: option.splits)

lemma on_close_unique: "unique_ids s \<Longrightarrow> unique_ids (on_close w s)"
  by (simp add: on_close_def unique_ids_def Let_def bound_ids_splice1 split: option.split)

lemma on_auth_timeout_unique: "unique_ids s \<Longrightarrow> unique_ids (on_auth_timeout w now s)"
  by (simp add: on_auth_timeout_def unique_ids_def Let_def)

lemma heartbeat_visit_unique: "unique_ids s \<Longrightarrow> unique_ids (heartbeat_visit now k s)"
  by (simp add: heartbeat_visit_def unique_ids_def Let_def bound_ids_splice1)

lemma heartbeat_loop_unique: "unique_ids s \<Longrightarrow> unique_ids (heartbeat_loop now k len s)"
proof (induction now k len s rule: heartbeat_loop.induct)
  case (1 now k len s)
  show ?case
  proof (cases "k < len")
    case True
    then show ?thesis
      using "1.IH" [OF True] "1.prems" heartbeat_visit_unique [of s now k]
      by (simp add: heartbeat_loop.simps [of now k len s])
  next
    case False
    then show ?thesis
      using "1.prems" by (simp add: heartbeat_loop.simps [of now k len s])
  qed
qed

lemma step_unique: "unique_ids s \<Longrightarrow> unique_ids (step locate e s)"
proof (cases e)
  case (Broadcast t cfg now)
  assume "unique_ids s"
  then show ?thesis using Broadcast by (simp add: unique_ids_def)
qed (simp_all add: on_connection_unique on_message_unique on_close_unique
      on_auth_timeout_unique heartbeat_def heartbeat_loop_unique)

lemma run_unique: "unique_ids s \<Longrightarrow> unique_ids (run locate es s)"
  by (induction es arbitrary: s) (simp_all add: step_unique)

lemma init_unique: "unique_ids (init st)"
  by (simp add: unique_ids_def init_def bound_ids_def)

lemma authenticate_readyState [simp]:
  "readyState (sockets (authenticate w payload now s) w') = readyState (sockets s w')"
  by (cases payload) (simp_all add: authenticate_def Let_def split: option.split)

text \<open>
  C6, as the spec states it, fails: when a second connection authenticates as driver 20,
  the connection that was bound to driver 20 before is not closed. It stays open, it has
  been sent nothing but its own \<open>auth_success\<close>, and its placeholder is still
  registered.
\<close>

theorem second_auth_leaves_first_open:
  "readyState (sockets both_logins 1) = OPEN
   \<and> sent (sockets both_logins 1) =
       [\<lparr>ftype = ''auth_success'', fpayload = AuthSuccessP 20 ''driver'', ftimestamp = 1\<rparr>]
   \<and> clients both_logins =
       [\<lparr>ws = 1, userId = 0, userType = ''passenger'', lastActivity = 0\<rparr>,
        \<lparr>ws = 2, userId = 0, userType = ''passenger'', lastActivity = 2\<rparr>,
        \<lparr>ws = 2, userId = 20, userType = ''driver'', lastActivity = 3\<rparr>]"
  by code_simp

text \<open>
  C6, amended. In every state that the server reaches from its start, whatever the events,
  no two registered clients with a set \<open>userId\<close> have the same \<open>userId\<close> and
  \<open>userType\<close>. When an \<open>auth\<close> frame is accepted, the client it registers is afterwards
  the only registered client of that identity: the client bound to it before is removed
  from the registry. The authentication changes the \<open>readyState\<close> of no connection.
\<close>

theorem identity_unique_registry:
  "unique_ids (run locate es (init st))
   \<and> (\<forall>uid ut. p_userId p = Some uid \<and> uid \<noteq> 0 \<and> p_userType p = Some ut \<and> ut \<noteq> []
         \<and> (ut = ''driver'' \<longrightarrow> getUser (store s) uid)
         \<and> (ut = ''passenger'' \<longrightarrow> getPassenger (store s) uid \<noteq> None) \<longrightarrow>
         filter (\<lambda>c. userId c = uid \<and> userType c = ut)
           (clients (on_message locate w (Frame ''auth'' (Some p)) now s)) =
           [\<lparr>ws = w, userId = uid, userType = ut, lastActivity = now\<rparr>])
   \<and> (\<forall>w'. readyState (sockets (on_message locate w (Frame ''auth'' (Some p)) now s) w') =
             readyState (sockets s w'))"
proof (intro conjI allI impI)
  show "unique_ids (run locate es (init st))"
    using init_unique by (rule run_unique)
next
  fix uid ut
  assume a: "p_userId p = Some uid \<and> uid \<noteq> 0 \<and> p_userType p = Some ut \<and> ut \<noteq> []
         \<and> (ut = ''driver'' \<longrightarrow> getUser (store s) uid)
         \<and> (ut = ''passenger'' \<longrightarrow> getPassenger (store s) uid \<noteq> None)"
  have "clients (authenticate w (Some p) now s) =
          filter (\<lambda>c. \<not> (userId c = uid \<and> userType c = ut)) (clients s)
          @ [\<lparr>ws = w, userId = uid, userType = ut, lastActivity = now\<rparr>]"
    using a by (auto simp add: authenticate_def Let_def truthy_num_def truthy_str_def
        split: option.split)
  then show "filter (\<lambda>c. userId c = uid \<and> userType c = ut)
           (clients (on_message locate w (Frame ''auth'' (Some p)) now s)) =
           [\<lparr>ws = w, userId = uid, userType = ut, lastActivity = now\<rparr>]"
    by (simp add: on_message_def)
next
  fix w'
  show "readyState (sockets (on_message locate w (Frame ''auth'' (Some p)) now s) w') =
             readyState (sockets s w')"
    by (simp add: on_message_def)
qed

theorem identity_unique_registry_witness:
  "p_userId (auth_payload 20 ''driver'') = Some 20 \<and> (20::int) \<noteq> 0
   \<and> p_userType (auth_payload 20 ''driver'') = Some ''driver'' \<and> ''driver'' \<noteq> []
   \<and> getUser (store first_login) 20
   \<and> unique_ids both_logins
   \<and> filter (\<lambda>c. userId c = 20 \<and> userType c = ''driver'') (clients both_logins) =
       [\<lparr>ws = 2, userId = 20, userType = ''driver'', lastActivity = 3\<rparr>]
   \<and> readyState (sockets both_logins 1) = readyState (sockets first_login 1)"
proof -
  have e: "both_logins =
             on_message nobody 2 (Frame ''auth'' (Some (auth_payload 20 ''driver''))) 3 first_login"
    by (simp add: both_logins_def first_login_def)
  have h: "p_userId (auth_payload 20 ''driver'') = Some 20 \<and> (20::int) \<noteq> 0
     \<and> p_userType (auth_payload 20 ''driver'') = Some ''driver'' \<and> ''driver'' \<noteq> []
     \<and> (''driver'' = ''driver'' \<longrightarrow> getUser (store first_login) 20)
     \<and> (''driver'' = ''passenger'' \<longrightarrow> getPassenger (store first_login) 20 \<noteq> None)"
    by code_simp
  note T = identity_unique_registry [where locate = nobody
      and es = "[Connection 1 0, Message 1 (Frame ''auth'' (Some (auth_payload 20 ''driver''))) 1,
                 Connection 2 2, Message 2 (Frame ''auth'' (Some (auth_payload 20 ''driver''))) 3]"
      and st = "store_of (ride_of ''pending'' None) idle_drivers"
      and p = "auth_payload 20 ''driver''" and s = first_login and w = 2 and now = 3]
  have u: "unique_ids both_logins"
    using T unfolding both_logins_def by (rule conjunct1)
  have f: "filter (\<lambda>c. userId c = 20 \<and> userType c = ''driver'') (clients both_logins) =
       [\<lparr>ws = 2, userId = 20, userType = ''driver'', lastActivity = 3\<rparr>]"
    using T h unfolding e by blast
  have r: "readyState (sockets both_logins 1) = readyState (sockets first_login 1)"
    using T unfolding e by blast
  show ?thesis
    using h u f r by simp
qed

section \<open>Ping\<close>

text \<open>
  \<open>handleMessage\<close> answers a \<open>ping\<close> with a \<open>pong\<close>, but the listener never hands it
  one: a frame of type \<open>ping\<close> takes the authentication branch, which sends at most one
  frame, and never a \<open>pong\<close>.
\<close>

lemma ping_never_dispatched:
  "on_message locate w (Frame PING payload) now s = authenticate w payload now s"
  by (simp add: on_message_def)

lemma handleMessage_ping:
  "handleMessage locate PING payload client now s = sendMessage (ws client) PONG EmptyP now s"
  by (simp add: handleMessage_def)

lemma authenticate_sends_no_pong:
  "sent (sockets (authenticate w payload now s) w') = sent (sockets s w')
   \<or> (\<exists>f. sent (sockets (authenticate w payload now s) w') = sent (sockets s w') @ [f]
          \<and> ftype f \<noteq> PONG)"
  by (cases payload)
     (simp_all add: authenticate_def Let_def sendError_def sendMessage_def ws_send_def
        split: option.split)

lemma ping_never_elicits_pong:
  "sent (sockets (on_message locate w (Frame PING payload) now s) w') = sent (sockets s w')
   \<or> (\<exists>f. sent (sockets (on_message locate w (Frame PING payload) now s) w') =
              sent (sockets s w') @ [f] \<and> ftype f \<noteq> PONG)"
  unfolding ping_never_dispatched by (rule authenticate_sends_no_pong)

text \<open>
  C9. When the authenticated passenger sends a \<open>ping\<close> frame without payload, the server
  answers with the error "invalid authentication data" and no \<open>pong\<close>, and the
  \<open>lastActivity\<close> of both clients registered for that connection is what it was.
\<close>

theorem ping_answered_with_error:
  "(let s = on_message nobody 1 (Frame PING None) 6 logged_in
    in map fpayload (sent (sockets s 1)) = [AuthSuccessP 10 ''passenger'', ErrorP InvalidAuthData]
       \<and> clients s = clients logged_in
       \<and> map lastActivity (filter (\<lambda>c. ws c = 1) (clients s)) = [0, 1])"
  by code_simp

end
